theory Spec2Isabelle
  imports Main
begin

section \<open>Strings\<close>

text \<open>
  A JavaScript string is a sequence of UTF-16 code units, and \<open>length\<close> counts code
  units. A code unit is kept as a natural number below 65536; no arithmetic is done on
  code units, only comparison. ASCII literals of the source are written with \<open>ascii\<close>;
  the Japanese literals are written as their code units.
\<close>

type_synonym jsstring = "nat list"

definition ascii :: "string \<Rightarrow> jsstring" where
  "ascii s = map of_char s"

text \<open>
  \<open>String.prototype.trim\<close> removes the code units of WhiteSpace and LineTerminator
  (ECMA-262) from both ends: TAB, LF, VT, FF, CR, SP, NBSP, U+1680, U+2000..U+200A,
  U+2028, U+2029, U+202F, U+205F, U+3000 and U+FEFF.
\<close>

definition isWhiteSpace :: "nat \<Rightarrow> bool" where
  "isWhiteSpace c \<longleftrightarrow>
     c \<in> set [0x0009, 0x000A, 0x000B, 0x000C, 0x000D, 0x0020, 0x00A0, 0x1680,
               0x2000, 0x2001, 0x2002, 0x2003, 0x2004, 0x2005, 0x2006, 0x2007,
               0x2008, 0x2009, 0x200A, 0x2028, 0x2029, 0x202F, 0x205F, 0x3000, 0xFEFF]"

definition trim :: "jsstring \<Rightarrow> jsstring" where
  "trim s = rev (dropWhile isWhiteSpace (rev (dropWhile isWhiteSpace s)))"

text \<open>A number inside a template literal is rendered in decimal.\<close>

fun toDecimal :: "nat \<Rightarrow> jsstring" where
  "toDecimal n = (if n < 10 then [48 + n] else toDecimal (n div 10) @ [48 + n mod 10])"

declare toDecimal.simps [simp del]

text \<open>\<open>Array.prototype.join\<close> with a separator.\<close>

fun join :: "jsstring \<Rightarrow> jsstring list \<Rightarrow> jsstring" where
  "join sep [] = []"
| "join sep [x] = x"
| "join sep (x # y # ys) = x @ sep @ join sep (y # ys)"

section \<open>Input validation (src/utils/validation.ts)\<close>

definition MAX_SCRIPT_LENGTH :: nat where
  "MAX_SCRIPT_LENGTH = 5000"

record ValidationResult =
  isValid :: bool
  errors :: "jsstring list"

text \<open>The message pushed by the emptiness check ("please enter a script").\<close>

definition MSG_SCRIPT_EMPTY :: jsstring where
  "MSG_SCRIPT_EMPTY =
     [0x53F0, 0x672C, 0x3092, 0x5165, 0x529B, 0x3057, 0x3066, 0x304F, 0x3060, 0x3055,
      0x3044, 0x3002]"

text \<open>
  The message pushed by the upper limit check: "the script must be within
  \<open>MAX_SCRIPT_LENGTH\<close> characters; now: \<open>script.length\<close> characters".
\<close>

definition MSG_SCRIPT_TOO_LONG :: "nat \<Rightarrow> jsstring" where
  "MSG_SCRIPT_TOO_LONG len =
     [0x53F0, 0x672C, 0x306F] @ toDecimal MAX_SCRIPT_LENGTH @
     [0x6587, 0x5B57, 0x4EE5, 0x5185, 0x3067, 0x5165, 0x529B, 0x3057, 0x3066, 0x304F,
      0x3060, 0x3055, 0x3044, 0x3002, 0x73FE, 0x5728, 0xFF1A] @ toDecimal len @
     [0x6587, 0x5B57]"

text \<open>The message pushed by the lower limit check ("at least 10 characters").\<close>

definition MSG_SCRIPT_TOO_SHORT :: jsstring where
  "MSG_SCRIPT_TOO_SHORT =
     [0x53F0, 0x672C, 0x306F, 0x0031, 0x0030, 0x6587, 0x5B57, 0x4EE5, 0x4E0A, 0x3067,
      0x5165, 0x529B, 0x3057, 0x3066, 0x304F, 0x3060, 0x3055, 0x3044, 0x3002]"

text \<open>
  \<open>validateScript\<close>: three independent checks, each pushing onto \<open>errors\<close>. For a
  string, \<open>!script\<close> holds exactly for the empty string.
\<close>

definition validateScript :: "jsstring \<Rightarrow> ValidationResult" where
  "validateScript script =
     (let errors0 = [];
          errors1 = (if script = [] \<or> length (trim script) = 0
                     then errors0 @ [MSG_SCRIPT_EMPTY] else errors0);
          errors2 = (if length script > MAX_SCRIPT_LENGTH
                     then errors1 @ [MSG_SCRIPT_TOO_LONG (length script)] else errors1);
          errors3 = (if length (trim script) > 0 \<and> length (trim script) < 10
                     then errors2 @ [MSG_SCRIPT_TOO_SHORT] else errors2)
      in \<lparr>isValid = (length errors3 = 0), errors = errors3\<rparr>)"

section \<open>Errors (src/types/errors.ts)\<close>

datatype ApiErrorType =
  OPENAI_ERROR | DID_ERROR | CREDIT_INSUFFICIENT | VALIDATION_ERROR | NETWORK_ERROR
  | UNKNOWN_ERROR

text \<open>
  A value that is thrown (or with which a promise rejects). \<open>VideoGenerationError\<close>
  carries its message, its type, the message of the optional original error and the
  \<open>retryable\<close> flag; \<open>Error\<close> is any other \<open>Error\<close> object, with its message.
  JavaScript lets every value be thrown: \<open>NonError\<close> is a value \<open>v\<close> that is not an
  \<open>Error\<close>, kept as the two things this program can observe of it, the string
  \<open>String(v)\<close> and whether \<open>v\<close> is truthy.
\<close>

datatype thrown =
  VideoGenerationError jsstring ApiErrorType "jsstring option" bool
  | Error jsstring
  | NonError jsstring bool

text \<open>Whether a thrown value is truthy; every object is.\<close>

fun thrown_truthy :: "thrown \<Rightarrow> bool" where
  "thrown_truthy (NonError shown truthy) = truthy"
| "thrown_truthy e = True"

text \<open>\<open>error instanceof VideoGenerationError && !error.retryable\<close>\<close>

fun nonRetryableClassified :: "thrown \<Rightarrow> bool" where
  "nonRetryableClassified (VideoGenerationError m t orig r) = (\<not> r)"
| "nonRetryableClassified e = False"

text \<open>\<open>error instanceof VideoGenerationError && error.retryable\<close>\<close>

fun retryableClassified :: "thrown \<Rightarrow> bool" where
  "retryableClassified (VideoGenerationError m t orig r) = r"
| "retryableClassified e = False"

section \<open>Retry (utils/retry.ts)\<close>

record RetryConfig =
  maxRetries :: int
  retryDelay :: int
  exponentialBackoff :: bool

definition DEFAULT_RETRY_CONFIG :: RetryConfig where
  "DEFAULT_RETRY_CONFIG = \<lparr>maxRetries = 3, retryDelay = 1000, exponentialBackoff = True\<rparr>"

text \<open>
  What one call of \<open>withRetry\<close> did: how the returned promise settled (\<open>Inl\<close> a
  rejection, \<open>Inr\<close> the value), how many times \<open>fn\<close> was invoked, and the delays it
  slept, in order.
\<close>

record 'a RetryRun =
  outcome :: "thrown + 'a"
  calls :: nat
  sleeps :: "int list"

text \<open>The last statement: \<open>throw lastError || new Error('Retry failed')\<close>.\<close>

definition retryFailed :: "thrown option \<Rightarrow> thrown" where
  "retryFailed lastError =
     (case lastError of
        None \<Rightarrow> Error (ascii ''Retry failed'')
      | Some e \<Rightarrow> if thrown_truthy e then e else Error (ascii ''Retry failed''))"

text \<open>
  The operation \<open>fn\<close> is any effectful thunk; \<open>fn k\<close> is how its invocation number
  \<open>k\<close> (counted from 0) settles. The loop invokes it once per attempt, so inside the loop
  the invocation number is \<open>attempt\<close>, and \<open>attempt\<close> invocations have been made when
  the loop condition is tested.
\<close>

function withRetry_loop ::
  "(nat \<Rightarrow> thrown + 'a) \<Rightarrow> RetryConfig \<Rightarrow> nat \<Rightarrow> thrown option \<Rightarrow> int list \<Rightarrow> 'a RetryRun"
where
  "withRetry_loop fn config attempt lastError slept =
     (if int attempt \<le> maxRetries config then
        (case fn attempt of
           Inr v \<Rightarrow> \<lparr>outcome = Inr v, calls = attempt + 1, sleeps = slept\<rparr>
         | Inl error \<Rightarrow>
             if nonRetryableClassified error then
               \<lparr>outcome = Inl error, calls = attempt + 1, sleeps = slept\<rparr>
             else if int attempt = maxRetries config then
               \<lparr>outcome = Inl (retryFailed (Some error)), calls = attempt + 1,
                sleeps = slept\<rparr>
             else
               withRetry_loop fn config (attempt + 1) (Some error)
                 (slept @ [if exponentialBackoff config
                           then retryDelay config * 2 ^ attempt
                           else retryDelay config]))
      else \<lparr>outcome = Inl (retryFailed lastError), calls = attempt, sleeps = slept\<rparr>)"
  by pat_completeness auto
termination
  by (relation "measure (\<lambda>(fn, config, attempt, lastError, slept).
        nat (maxRetries config + 1 - int attempt))") auto

declare withRetry_loop.simps [simp del]

definition withRetry :: "(nat \<Rightarrow> thrown + 'a) \<Rightarrow> RetryConfig \<Rightarrow> 'a RetryRun" where
  "withRetry fn config = withRetry_loop fn config 0 None []"

section \<open>D-ID client (src/services/did-video.service.ts)\<close>

text \<open>
  The message of a thrown value that is an \<open>Error\<close> object
  (\<open>error instanceof Error ? error.message : ...\<close>).
\<close>

fun errorMessageOf :: "thrown \<Rightarrow> jsstring option" where
  "errorMessageOf (VideoGenerationError m t orig r) = Some m"
| "errorMessageOf (Error m) = Some m"
| "errorMessageOf (NonError shown truthy) = None"

text \<open>
  What one \<open>fetch\<close> followed by \<open>response.json()\<close> gives: either of the two threw, or
  there is a response with its status code, its status text and its parsed body.
  \<open>response.ok\<close> holds for the status codes from 200 to 299.
\<close>

datatype 'b fetched = FetchThrew thrown | Response nat jsstring 'b

definition response_ok :: "nat \<Rightarrow> bool" where
  "response_ok code \<longleftrightarrow> 200 \<le> code \<and> code \<le> 299"

record DIDResponse =
  did_id :: jsstring
  did_status :: jsstring
  result_url :: "jsstring option"

text \<open>An optional string is falsy when it is absent or empty.\<close>

fun falsyString :: "jsstring option \<Rightarrow> bool" where
  "falsyString None = True"
| "falsyString (Some s) = (s = [])"

text \<open>
  The body shared by \<open>createVideoFromText\<close>, \<open>createVideo\<close> and \<open>getVideoStatus\<close>: a
  response that is not ok throws inside the \<open>try\<close>, and the \<open>catch\<close> rethrows every
  failure as a plain \<open>Error\<close> whose message starts with \<open>prefix\<close>.
\<close>

definition didRequest :: "jsstring \<Rightarrow> DIDResponse fetched \<Rightarrow> thrown + DIDResponse" where
  "didRequest prefix f =
     (case f of
        FetchThrew e \<Rightarrow>
          Inl (Error (prefix @ (case errorMessageOf e of Some m \<Rightarrow> m
                                | None \<Rightarrow> ascii ''Unknown error'')))
      | Response code statusText data \<Rightarrow>
          if \<not> response_ok code
          then Inl (Error (prefix @ ascii ''D-ID API error: '' @ toDecimal code @ ascii '' ''
                           @ statusText))
          else Inr data)"

definition createVideoFromText :: "DIDResponse fetched \<Rightarrow> thrown + DIDResponse" where
  "createVideoFromText posted = didRequest (ascii ''Video generation failed: '') posted"

definition getVideoStatus :: "DIDResponse fetched \<Rightarrow> thrown + DIDResponse" where
  "getVideoStatus got = didRequest (ascii ''Failed to get video status: '') got"

text \<open>
  What one call of \<open>waitForVideoCompletion\<close> did: how it settled, how many status
  requests it made and the delays it slept.
\<close>

record WaitRun =
  settled :: "thrown + jsstring"
  polls :: nat
  waited :: "int list"

text \<open>
  \<open>waitForVideoCompletion\<close>: \<open>remote k\<close> is what the remote answers to status request
  number \<open>k\<close> for this video. The parameters are JavaScript numbers, kept as integers.
\<close>

function waitForVideoCompletion_loop ::
  "(nat \<Rightarrow> DIDResponse fetched) \<Rightarrow> int \<Rightarrow> int \<Rightarrow> nat \<Rightarrow> int list \<Rightarrow> WaitRun"
where
  "waitForVideoCompletion_loop remote maxAttempts intervalMs attempt slept =
     (if int attempt < maxAttempts then
        (case getVideoStatus (remote attempt) of
           Inl e \<Rightarrow> \<lparr>settled = Inl e, polls = attempt + 1, waited = slept\<rparr>
         | Inr status \<Rightarrow>
             if did_status status = ascii ''done'' \<and> \<not> falsyString (result_url status) then
               \<lparr>settled = Inr (the (result_url status)), polls = attempt + 1, waited = slept\<rparr>
             else if did_status status = ascii ''error'' then
               \<lparr>settled = Inl (Error (ascii ''Video generation failed'')),
                polls = attempt + 1, waited = slept\<rparr>
             else
               waitForVideoCompletion_loop remote maxAttempts intervalMs (attempt + 1)
                 (if int attempt < maxAttempts - 1 then slept @ [intervalMs] else slept))
      else \<lparr>settled = Inl (Error (ascii ''Video generation timeout'')),
            polls = attempt, waited = slept\<rparr>)"
  by pat_completeness auto
termination
  by (relation "measure (\<lambda>(remote, maxAttempts, intervalMs, attempt, slept).
        nat (maxAttempts - int attempt))") auto

declare waitForVideoCompletion_loop.simps [simp del]

definition waitForVideoCompletion ::
  "(nat \<Rightarrow> DIDResponse fetched) \<Rightarrow> int \<Rightarrow> int \<Rightarrow> WaitRun" where
  "waitForVideoCompletion remote maxAttempts intervalMs =
     waitForVideoCompletion_loop remote maxAttempts intervalMs 0 []"

text \<open>The default parameters of \<open>waitForVideoCompletion\<close>.\<close>

definition waitForVideoCompletion_default :: "(nat \<Rightarrow> DIDResponse fetched) \<Rightarrow> WaitRun" where
  "waitForVideoCompletion_default remote = waitForVideoCompletion remote 30 5000"

text \<open>A status response that says \<open>done\<close> and carries no usable \<open>result_url\<close>.\<close>

definition doneWithoutUrl :: "DIDResponse fetched \<Rightarrow> bool" where
  "doneWithoutUrl f =
     (case f of
        FetchThrew e \<Rightarrow> False
      | Response code statusText data \<Rightarrow>
          response_ok code \<and> did_status data = ascii ''done'' \<and> falsyString (result_url data))"

text \<open>A remote that answers every status request with \<open>done\<close> and no \<open>result_url\<close>.\<close>

definition done_no_url_remote :: "nat \<Rightarrow> DIDResponse fetched" where
  "done_no_url_remote k =
     Response 200 (ascii ''OK'')
       \<lparr>did_id = ascii ''tlk_1'', did_status = ascii ''done'', result_url = None\<rparr>"

section \<open>Database service (src/services/database.service.ts)\<close>

datatype VideoStatus = pending | processing | completed | failed

record ScriptData =
  script_id :: jsstring
  title :: jsstring
  content :: jsstring
  status :: VideoStatus
  script_videoUrl :: "jsstring option"
  createdAt :: int
  updatedAt :: int

text \<open>
  The service keeps a \<open>Map\<close> from id to script. \<open>new Date()\<close> is the argument \<open>now\<close>.
\<close>

type_synonym DatabaseService = "jsstring \<rightharpoonup> ScriptData"

definition getScript :: "DatabaseService \<Rightarrow> jsstring \<Rightarrow> ScriptData option" where
  "getScript scripts ident = scripts ident"

definition updateScriptStatus ::
  "DatabaseService \<Rightarrow> int \<Rightarrow> jsstring \<Rightarrow> VideoStatus \<Rightarrow> thrown + DatabaseService" where
  "updateScriptStatus scripts now ident st =
     (case scripts ident of
        None \<Rightarrow> Inl (Error (ascii ''Script not found: '' @ ident))
      | Some script \<Rightarrow> Inr (scripts(ident \<mapsto> script\<lparr>status := st, updatedAt := now\<rparr>)))"

definition updateScriptVideoUrl ::
  "DatabaseService \<Rightarrow> int \<Rightarrow> jsstring \<Rightarrow> jsstring \<Rightarrow> thrown + DatabaseService" where
  "updateScriptVideoUrl scripts now ident url =
     (case scripts ident of
        None \<Rightarrow> Inl (Error (ascii ''Script not found: '' @ ident))
      | Some script \<Rightarrow> Inr (scripts(ident \<mapsto> script\<lparr>script_videoUrl := Some url, updatedAt := now\<rparr>)))"

section \<open>Orchestrator with a database (src/services/video-generation.service.ts)\<close>

record VideoGenerationResult =
  success :: bool
  result_videoUrl :: "jsstring option"
  result_error :: "jsstring option"

datatype ProgressStepName = tts | video | complete

record VideoGenerationProgress =
  step :: ProgressStepName
  progress_status :: VideoStatus
  progress_message :: jsstring

text \<open>
  The remote D-ID service as the orchestrator meets it: the answer to the \<open>POST\<close> of a
  text with a presenter image, and the answer to status request number \<open>k\<close> for a video
  id.
\<close>

record DIDRemote =
  posted :: "jsstring \<Rightarrow> jsstring \<Rightarrow> DIDResponse fetched"
  got :: "jsstring \<Rightarrow> nat \<Rightarrow> DIDResponse fetched"

text \<open>\<open>onProgress?.(p)\<close>: the callback is called only when it is attached.\<close>

definition notify :: "bool \<Rightarrow> 'p \<Rightarrow> 'p list" where
  "notify attached p = (if attached then [p] else [])"

text \<open>
  The \<open>try\<close> block of \<open>generateVideo\<close>: how it ends (\<open>Inl\<close> the value thrown, \<open>Inr\<close> the
  video URL), the database then and the progress values delivered so far.
\<close>

definition generateVideo_try ::
  "DIDRemote \<Rightarrow> jsstring \<Rightarrow> bool \<Rightarrow> int \<Rightarrow> DatabaseService \<Rightarrow> jsstring \<Rightarrow>
   (thrown + jsstring) \<times> DatabaseService \<times> VideoGenerationProgress list" where
  "generateVideo_try remote presenterImageUrl onProgress now db scriptId =
     (case getScript db scriptId of
        None \<Rightarrow> (Inl (Error (ascii ''Script not found: '' @ scriptId)), db, [])
      | Some script \<Rightarrow>
     (case updateScriptStatus db now scriptId processing of
        Inl e \<Rightarrow> (Inl e, db, [])
      | Inr db1 \<Rightarrow>
     (let ev = notify onProgress
                 \<lparr>step = tts, progress_status = processing,
                  progress_message = ascii ''Generating audio...''\<rparr> @
               notify onProgress
                 \<lparr>step = video, progress_status = processing,
                  progress_message = ascii ''Generating video...''\<rparr>
      in
     (case createVideoFromText (posted remote (content script) presenterImageUrl) of
        Inl e \<Rightarrow> (Inl e, db1, ev)
      | Inr videoResponse \<Rightarrow>
     (case settled (waitForVideoCompletion_default (got remote (did_id videoResponse))) of
        Inl e \<Rightarrow> (Inl e, db1, ev)
      | Inr url \<Rightarrow>
     (case updateScriptVideoUrl db1 now scriptId url of
        Inl e \<Rightarrow> (Inl e, db1, ev)
      | Inr db2 \<Rightarrow>
     (case updateScriptStatus db2 now scriptId completed of
        Inl e \<Rightarrow> (Inl e, db2, ev)
      | Inr db3 \<Rightarrow>
          (Inr url, db3,
           ev @ notify onProgress
                  \<lparr>step = complete, progress_status = completed,
                   progress_message = ascii ''Video generation completed!''\<rparr>))))))))"

text \<open>
  What one call of \<open>generateVideo\<close> did: how the returned promise settled, the database
  afterwards and the progress values delivered.
\<close>

record OrchestratorRun =
  promise :: "thrown + VideoGenerationResult"
  database :: DatabaseService
  delivered :: "VideoGenerationProgress list"

text \<open>
  \<open>generateVideo\<close> of the orchestrator: the \<open>catch\<close> block first awaits
  \<open>updateScriptStatus(scriptId, 'failed')\<close>; what that call throws leaves the function.
\<close>

definition generateVideo_orchestrator ::
  "DIDRemote \<Rightarrow> jsstring \<Rightarrow> bool \<Rightarrow> int \<Rightarrow> DatabaseService \<Rightarrow> jsstring \<Rightarrow> OrchestratorRun"
where
  "generateVideo_orchestrator remote presenterImageUrl onProgress now db scriptId =
     (case generateVideo_try remote presenterImageUrl onProgress now db scriptId of
        (Inr url, db', ev) \<Rightarrow>
          \<lparr>promise = Inr \<lparr>success = True, result_videoUrl = Some url, result_error = None\<rparr>,
           database = db', delivered = ev\<rparr>
      | (Inl error, db', ev) \<Rightarrow>
          (case updateScriptStatus db' now scriptId failed of
             Inl e \<Rightarrow> \<lparr>promise = Inl e, database = db', delivered = ev\<rparr>
           | Inr db'' \<Rightarrow>
               (let errorMessage = (case errorMessageOf error of Some m \<Rightarrow> m
                                    | None \<Rightarrow> ascii ''Unknown error'')
                in \<lparr>promise = Inr \<lparr>success = False, result_videoUrl = None,
                                    result_error = Some errorMessage\<rparr>,
                    database = db'',
                    delivered = ev @ notify onProgress
                      \<lparr>step = complete, progress_status = failed,
                       progress_message = ascii ''Error: '' @ errorMessage\<rparr>\<rparr>)))"

text \<open>A remote that accepts every job and reports it done at the first status request.\<close>

definition prompt_remote :: DIDRemote where
  "prompt_remote =
     \<lparr>posted = (\<lambda>text image. Response 201 (ascii ''Created'')
                  \<lparr>did_id = ascii ''tlk_1'', did_status = ascii ''created'', result_url = None\<rparr>),
      got = (\<lambda>ident k. Response 200 (ascii ''OK'')
                  \<lparr>did_id = ident, did_status = ascii ''done'',
                   result_url = Some (ascii ''https://d-id.example/v.mp4'')\<rparr>)\<rparr>"

section \<open>Progress (src/types/progress.ts)\<close>

datatype ProgressStep = VALIDATING | GENERATING_AUDIO | GENERATING_VIDEO | COMPLETED | ERROR

record ProgressState =
  currentStep :: ProgressStep
  progress :: nat
  message :: jsstring
  step_error :: "jsstring option"

record StepConfig =
  config_progress :: nat
  config_message :: jsstring

text \<open>
  \<open>PROGRESS_STEPS\<close>. The messages say: "validating the script...", "generating the
  audio...", "generating the video...", "video generation is complete!" and "an error
  occurred".
\<close>

fun PROGRESS_STEPS :: "ProgressStep \<Rightarrow> StepConfig" where
  "PROGRESS_STEPS VALIDATING =
     \<lparr>config_progress = 10,
      config_message = [0x53F0, 0x672C, 0x3092, 0x691C, 0x8A3C, 0x3057, 0x3066, 0x3044,
                        0x307E, 0x3059, 0x002E, 0x002E, 0x002E]\<rparr>"
| "PROGRESS_STEPS GENERATING_AUDIO =
     \<lparr>config_progress = 30,
      config_message = [0x97F3, 0x58F0, 0x3092, 0x751F, 0x6210, 0x3057, 0x3066, 0x3044,
                        0x307E, 0x3059, 0x002E, 0x002E, 0x002E]\<rparr>"
| "PROGRESS_STEPS GENERATING_VIDEO =
     \<lparr>config_progress = 70,
      config_message = [0x52D5, 0x753B, 0x3092, 0x751F, 0x6210, 0x3057, 0x3066, 0x3044,
                        0x307E, 0x3059, 0x002E, 0x002E, 0x002E]\<rparr>"
| "PROGRESS_STEPS COMPLETED =
     \<lparr>config_progress = 100,
      config_message = [0x52D5, 0x753B, 0x751F, 0x6210, 0x304C, 0x5B8C, 0x4E86, 0x3057,
                        0x307E, 0x3057, 0x305F, 0xFF01]\<rparr>"
| "PROGRESS_STEPS ERROR =
     \<lparr>config_progress = 0,
      config_message = [0x30A8, 0x30E9, 0x30FC, 0x304C, 0x767A, 0x751F, 0x3057, 0x307E,
                        0x3057, 0x305F]\<rparr>"

section \<open>Generation service with progress (src/services/videoGenerationService.ts)\<close>

text \<open>\<open>ERROR_MESSAGES\<close> (src/types/errors.ts), one Japanese sentence per error type.\<close>

fun ERROR_MESSAGES :: "ApiErrorType \<Rightarrow> jsstring" where
  "ERROR_MESSAGES OPENAI_ERROR =
     ascii ''OpenAI API'' @
     [0x3067, 0x30A8, 0x30E9, 0x30FC, 0x304C, 0x767A, 0x751F, 0x3057, 0x307E, 0x3057,
      0x305F, 0x3002, 0x3057, 0x3070, 0x3089, 0x304F, 0x6642, 0x9593, 0x3092, 0x304A,
      0x3044, 0x3066, 0x518D, 0x5EA6, 0x304A, 0x8A66, 0x3057, 0x304F, 0x3060, 0x3055,
      0x3044, 0x3002]"
| "ERROR_MESSAGES DID_ERROR =
     ascii ''D-ID API'' @
     [0x3067, 0x30A8, 0x30E9, 0x30FC, 0x304C, 0x767A, 0x751F, 0x3057, 0x307E, 0x3057,
      0x305F, 0x3002, 0x52D5, 0x753B, 0x751F, 0x6210, 0x306B, 0x5931, 0x6557, 0x3057,
      0x307E, 0x3057, 0x305F, 0x3002]"
| "ERROR_MESSAGES CREDIT_INSUFFICIENT =
     [0x30AF, 0x30EC, 0x30B8, 0x30C3, 0x30C8, 0x304C, 0x4E0D, 0x8DB3, 0x3057, 0x3066,
      0x3044, 0x307E, 0x3059, 0x3002, 0x30D7, 0x30E9, 0x30F3, 0x3092, 0x30A2, 0x30C3,
      0x30D7, 0x30B0, 0x30EC, 0x30FC, 0x30C9, 0x3059, 0x308B, 0x304B, 0x3001, 0x30AF,
      0x30EC, 0x30B8, 0x30C3, 0x30C8, 0x3092, 0x8FFD, 0x52A0, 0x3057, 0x3066, 0x304F,
      0x3060, 0x3055, 0x3044, 0x3002]"
| "ERROR_MESSAGES VALIDATION_ERROR =
     [0x5165, 0x529B, 0x5185, 0x5BB9, 0x306B, 0x554F, 0x984C, 0x304C, 0x3042, 0x308A,
      0x307E, 0x3059, 0x3002, 0x5185, 0x5BB9, 0x3092, 0x78BA, 0x8A8D, 0x3057, 0x3066,
      0x518D, 0x5EA6, 0x304A, 0x8A66, 0x3057, 0x304F, 0x3060, 0x3055, 0x3044, 0x3002]"
| "ERROR_MESSAGES NETWORK_ERROR =
     [0x30CD, 0x30C3, 0x30C8, 0x30EF, 0x30FC, 0x30AF, 0x30A8, 0x30E9, 0x30FC, 0x304C,
      0x767A, 0x751F, 0x3057, 0x307E, 0x3057, 0x305F, 0x3002, 0x63A5, 0x7D9A, 0x3092,
      0x78BA, 0x8A8D, 0x3057, 0x3066, 0x518D, 0x5EA6, 0x304A, 0x8A66, 0x3057, 0x304F,
      0x3060, 0x3055, 0x3044, 0x3002]"
| "ERROR_MESSAGES UNKNOWN_ERROR =
     [0x4E88, 0x671F, 0x3057, 0x306A, 0x3044, 0x30A8, 0x30E9, 0x30FC, 0x304C, 0x767A,
      0x751F, 0x3057, 0x307E, 0x3057, 0x305F, 0x3002, 0x3057, 0x3070, 0x3089, 0x304F,
      0x6642, 0x9593, 0x3092, 0x304A, 0x3044, 0x3066, 0x518D, 0x5EA6, 0x304A, 0x8A66,
      0x3057, 0x304F, 0x3060, 0x3055, 0x3044, 0x3002]"

text \<open>\<open>validateScriptOrThrow\<close> (src/utils/validation.ts): \<open>None\<close> when nothing is thrown.\<close>

definition validateScriptOrThrow :: "jsstring \<Rightarrow> thrown option" where
  "validateScriptOrThrow script =
     (let result = validateScript script
      in if \<not> isValid result
         then Some (VideoGenerationError (join (ascii '' '') (errors result))
                      VALIDATION_ERROR None False)
         else None)"

text \<open>\<open>String.prototype.includes\<close> (the name alone is a keyword of Isabelle).\<close>

fun startsWith :: "jsstring \<Rightarrow> jsstring \<Rightarrow> bool" where
  "startsWith s [] = True"
| "startsWith [] (c # cs) = False"
| "startsWith (d # ds) (c # cs) = (d = c \<and> startsWith ds cs)"

fun includes_str :: "jsstring \<Rightarrow> jsstring \<Rightarrow> bool" where
  "includes_str [] sub = (sub = [])"
| "includes_str (d # ds) sub = (startsWith (d # ds) sub \<or> includes_str ds sub)"

text \<open>
  The message of \<open>originalError\<close> in \<open>createApiError\<close>:
  \<open>error instanceof Error ? error : new Error(String(error))\<close>.
\<close>

fun originalErrorMessage :: "thrown \<Rightarrow> jsstring" where
  "originalErrorMessage (VideoGenerationError m t orig r) = m"
| "originalErrorMessage (Error m) = m"
| "originalErrorMessage (NonError shown truthy) = shown"

text \<open>
  \<open>isRetryableError\<close>. \<open>String.prototype.toLowerCase\<close> is the parameter
  \<open>toLowerCase\<close>.
\<close>

definition retryableMessages :: "jsstring list" where
  "retryableMessages = [ascii ''timeout'', ascii ''network'', ascii ''5xx'', ascii ''rate limit'']"

definition isRetryableError ::
  "(jsstring \<Rightarrow> jsstring) \<Rightarrow> jsstring \<Rightarrow> ApiErrorType \<Rightarrow> bool" where
  "isRetryableError toLowerCase error_message t =
     (if t = CREDIT_INSUFFICIENT \<or> t = VALIDATION_ERROR then False
      else (let errorMessage = toLowerCase error_message
            in list_ex (\<lambda>msg. includes_str errorMessage msg) retryableMessages))"

definition createApiError ::
  "(jsstring \<Rightarrow> jsstring) \<Rightarrow> thrown \<Rightarrow> ApiErrorType \<Rightarrow> thrown" where
  "createApiError toLowerCase e t =
     (let originalError = originalErrorMessage e;
          isRetryable = isRetryableError toLowerCase originalError t
      in VideoGenerationError (ERROR_MESSAGES t) t (Some originalError) isRetryable)"

text \<open>
  \<open>generateAudio\<close> and \<open>generateVideoFromAudio\<close>, given how the call to the remote API
  settled (\<open>callOpenAIAPI\<close>, \<open>callDIDAPI\<close>): a rejection is wrapped by \<open>createApiError\<close>.
\<close>

definition generateAudio :: "(jsstring \<Rightarrow> jsstring) \<Rightarrow> thrown + jsstring \<Rightarrow> thrown + jsstring" where
  "generateAudio toLowerCase response =
     (case response of Inr audioUrl \<Rightarrow> Inr audioUrl
      | Inl e \<Rightarrow> Inl (createApiError toLowerCase e OPENAI_ERROR))"

definition generateVideoFromAudio ::
  "(jsstring \<Rightarrow> jsstring) \<Rightarrow> thrown + jsstring \<Rightarrow> thrown + jsstring" where
  "generateVideoFromAudio toLowerCase response =
     (case response of Inr url \<Rightarrow> Inr url
      | Inl e \<Rightarrow> Inl (createApiError toLowerCase e DID_ERROR))"

text \<open>
  The two private methods that stand for the remote APIs in the source: each draws
  \<open>Math.random()\<close> and rejects when the draw is below 0.1 (\<open>low\<close>).
\<close>

definition callOpenAIAPI :: "bool \<Rightarrow> thrown + jsstring" where
  "callOpenAIAPI low =
     (if low then Inl (Error (ascii ''OpenAI API Error''))
      else Inr (ascii ''https://example.com/audio.mp3''))"

definition callDIDAPI :: "bool \<Rightarrow> thrown + jsstring" where
  "callDIDAPI low =
     (if low then Inl (Error (ascii ''D-ID API Error''))
      else Inr (ascii ''https://example.com/video.mp4''))"

text \<open>\<open>updateProgress\<close>: the snapshots delivered by one call.\<close>

definition updateProgress :: "bool \<Rightarrow> ProgressStep \<Rightarrow> jsstring option \<Rightarrow> ProgressState list" where
  "updateProgress onProgress st err =
     (if \<not> onProgress then []
      else (let stepConfig = PROGRESS_STEPS st
            in [\<lparr>currentStep = st, progress = config_progress stepConfig,
                 message = config_message stepConfig, step_error = err\<rparr>]))"

fun getErrorMessage :: "thrown \<Rightarrow> jsstring" where
  "getErrorMessage (VideoGenerationError m t orig r) = m"
| "getErrorMessage e = ERROR_MESSAGES UNKNOWN_ERROR"

record GeneratedVideo =
  gen_videoUrl :: jsstring
  gen_audioUrl :: jsstring
  gen_duration :: int

text \<open>
  What one call of \<open>generateVideo\<close> did: how the promise settled, the snapshots delivered
  to \<open>onProgress\<close> in order, and how often each remote API was called.
\<close>

record GenerationRun =
  returned :: "thrown + GeneratedVideo"
  snapshots :: "ProgressState list"
  audio_calls :: nat
  video_calls :: nat

text \<open>
  \<open>generateVideo\<close>. The remote APIs are the parameters \<open>openai\<close> and \<open>did\<close>: how call
  number \<open>k\<close> with the given argument settles (the source's stubs are
  \<open>callOpenAIAPI\<close> and \<open>callDIDAPI\<close> above, and its tests replace them). \<open>onProgress\<close>
  tells whether a callback is attached; \<open>startTime\<close> and \<open>endTime\<close> are the two readings
  of \<open>Date.now()\<close>. The \<open>catch\<close> block delivers the \<open>ERROR\<close> snapshot and rethrows.
\<close>

definition generateVideo ::
  "(jsstring \<Rightarrow> jsstring) \<Rightarrow> (jsstring \<Rightarrow> nat \<Rightarrow> thrown + jsstring) \<Rightarrow>
   (jsstring \<Rightarrow> nat \<Rightarrow> thrown + jsstring) \<Rightarrow> bool \<Rightarrow> int \<Rightarrow> int \<Rightarrow> jsstring \<Rightarrow> GenerationRun"
where
  "generateVideo toLowerCase openai did onProgress startTime endTime script =
     (let p1 = updateProgress onProgress VALIDATING None
      in case validateScriptOrThrow script of
        Some e \<Rightarrow>
          \<lparr>returned = Inl e,
           snapshots = p1 @ updateProgress onProgress ERROR (Some (getErrorMessage e)),
           audio_calls = 0, video_calls = 0\<rparr>
      | None \<Rightarrow>
     (let p2 = p1 @ updateProgress onProgress GENERATING_AUDIO None;
          audio = withRetry (\<lambda>k. generateAudio toLowerCase (openai script k))
                    DEFAULT_RETRY_CONFIG
      in case outcome audio of
        Inl e \<Rightarrow>
          \<lparr>returned = Inl e,
           snapshots = p2 @ updateProgress onProgress ERROR (Some (getErrorMessage e)),
           audio_calls = calls audio, video_calls = 0\<rparr>
      | Inr audioUrl \<Rightarrow>
     (let p3 = p2 @ updateProgress onProgress GENERATING_VIDEO None;
          vid = withRetry (\<lambda>k. generateVideoFromAudio toLowerCase (did audioUrl k))
                  DEFAULT_RETRY_CONFIG
      in case outcome vid of
        Inl e \<Rightarrow>
          \<lparr>returned = Inl e,
           snapshots = p3 @ updateProgress onProgress ERROR (Some (getErrorMessage e)),
           audio_calls = calls audio, video_calls = calls vid\<rparr>
      | Inr url \<Rightarrow>
     (let p4 = p3 @ updateProgress onProgress COMPLETED None;
          duration = (endTime - startTime) div 1000
      in \<lparr>returned = Inr \<lparr>gen_videoUrl = url, gen_audioUrl = audioUrl,
                            gen_duration = duration\<rparr>,
          snapshots = p4, audio_calls = calls audio, video_calls = calls vid\<rparr>))))"

text \<open>
  Lower case for the letters A to Z, as \<open>String.prototype.toLowerCase\<close> gives on ASCII
  text.
\<close>

definition asciiLower :: "jsstring \<Rightarrow> jsstring" where
  "asciiLower s = map (\<lambda>c. if 65 \<le> c \<and> c \<le> 90 then c + 32 else c) s"

text \<open>A speech API whose first call fails with a network timeout and whose later calls succeed.\<close>

definition flaky_openai :: "jsstring \<Rightarrow> nat \<Rightarrow> thrown + jsstring" where
  "flaky_openai script k =
     (if k = 0 then Inl (Error (ascii ''Network Timeout''))
      else Inr (ascii ''https://example.com/audio.mp3''))"

definition steady_did :: "jsstring \<Rightarrow> nat \<Rightarrow> thrown + jsstring" where
  "steady_did audioUrl k = callDIDAPI False"

section \<open>Video generation route (app/api/generate-video/route.ts)\<close>

record AvatarConfig =
  primary :: jsstring
  fallbacks :: "jsstring list"

definition DID_AVATAR_CONFIG :: AvatarConfig where
  "DID_AVATAR_CONFIG =
     \<lparr>primary = ascii ''https://d-id-public-bucket.s3.us-west-2.amazonaws.com/alice.jpg'',
      fallbacks = [ascii ''https://d-id-public-bucket.s3.us-west-2.amazonaws.com/amy.jpg'',
                   ascii ''https://d-id-public-bucket.s3.us-west-2.amazonaws.com/anna.jpg'']\<rparr>"

record DIDErrorResponse =
  kind :: "jsstring option"
  description :: "jsstring option"
  details :: "jsstring option"

record DIDCreateResponse =
  talk_id :: jsstring
  create_status :: jsstring

record DIDStatusResponse =
  talk_status :: jsstring
  talk_result_url :: "jsstring option"
  talk_error :: "DIDErrorResponse option"

text \<open>
  What \<open>axios.post\<close> can throw: an Axios error, with the status code of the response
  (when there is a response), the \<open>description\<close> and \<open>details\<close> of its body and its own
  message; or any other value.
\<close>

datatype axios_failure =
  AxiosError "nat option" "jsstring option" "jsstring option" jsstring
  | OtherFailure thrown

text \<open>
  The remote side of one call of \<open>generateLipSyncVideo\<close>: how the \<open>POST\<close> settles, and
  what status request number \<open>k\<close> gives (\<open>None\<close> when the request throws).
\<close>

record DIDTalk =
  talk_create :: "axios_failure + DIDCreateResponse"
  talk_polls :: "nat \<Rightarrow> DIDStatusResponse option"

text \<open>\<open>a || b\<close> on optional strings, with a string as the last alternative.\<close>

fun orElse :: "jsstring option \<Rightarrow> jsstring \<Rightarrow> jsstring" where
  "orElse None d = d"
| "orElse (Some s) d = (if s = [] then d else s)"

text \<open>
  What one call of \<open>generateLipSyncVideo\<close> did: how it settled, how many status requests
  it made and the delays it slept.
\<close>

record LipSyncRun =
  lipsync_result :: "thrown + jsstring"
  status_requests :: nat
  slept_ms :: "int list"

text \<open>The constant \<open>maxAttempts\<close> of \<open>generateLipSyncVideo\<close>.\<close>

definition route_maxAttempts :: nat where
  "route_maxAttempts = 60"

text \<open>
  The \<open>errorMessage\<close> computed in the polling loop for a job with status \<open>error\<close> or
  \<open>rejected\<close>.
\<close>

definition jobErrorMessage :: "DIDStatusResponse \<Rightarrow> jsstring" where
  "jobErrorMessage response =
     (case talk_error response of
        Some errorInfo \<Rightarrow>
          orElse (kind errorInfo) (ascii ''Unknown error'') @ ascii '': '' @
          orElse (description errorInfo) (ascii ''No description'')
      | None \<Rightarrow> ascii ''Video generation '' @ talk_status response)"

text \<open>
  The polling loop of \<open>generateLipSyncVideo\<close> with what follows it. Every iteration
  sleeps 10000 ms, makes one status request and either leaves the loop or increments
  \<open>attempts\<close>, so status request number \<open>k\<close> is made with \<open>attempts = k\<close>.
\<close>

function pollStatus_loop :: "(nat \<Rightarrow> DIDStatusResponse option) \<Rightarrow> nat \<Rightarrow> LipSyncRun" where
  "pollStatus_loop polled attempts =
     (if attempts < route_maxAttempts then
        (case polled attempts of
           None \<Rightarrow> pollStatus_loop polled (attempts + 1)
         | Some response \<Rightarrow>
             if talk_status response = ascii ''done'' then
               (let videoUrl = orElse (talk_result_url response) []
                in if videoUrl = [] then
                     \<lparr>lipsync_result = Inl (VideoGenerationError
                        (ascii ''D-ID API returned success but no video URL'')
                        DID_ERROR None True),
                      status_requests = attempts + 1,
                      slept_ms = replicate (attempts + 1) 10000\<rparr>
                   else
                     \<lparr>lipsync_result = Inr videoUrl,
                      status_requests = attempts + 1,
                      slept_ms = replicate (attempts + 1) 10000\<rparr>)
             else if talk_status response = ascii ''error''
                     \<or> talk_status response = ascii ''rejected'' then
               (let errorMessage = jobErrorMessage response
                in \<lparr>lipsync_result = Inl (VideoGenerationError
                       (ascii ''D-ID video generation failed: '' @ errorMessage)
                       DID_ERROR (Some errorMessage) False),
                    status_requests = attempts + 1,
                    slept_ms = replicate (attempts + 1) 10000\<rparr>)
             else pollStatus_loop polled (attempts + 1))
      else
        \<lparr>lipsync_result = Inl (VideoGenerationError
           (ascii ''Video generation timed out after '' @ toDecimal (route_maxAttempts * 10)
            @ ascii '' seconds'')
           DID_ERROR None True),
         status_requests = attempts,
         slept_ms = replicate attempts 10000\<rparr>)"
  by pat_completeness auto
termination
  by (relation "measure (\<lambda>(polled, attempts). route_maxAttempts - attempts)") auto

declare pollStatus_loop.simps [simp del]

text \<open>
  \<open>generateLipSyncVideo\<close>: the check of the API key, the \<open>POST\<close>, the polling loop, and
  the outer \<open>catch\<close>, which rethrows a \<open>VideoGenerationError\<close> and wraps everything else.
\<close>

definition generateLipSyncVideo ::
  "jsstring option \<Rightarrow> (jsstring \<Rightarrow> jsstring \<Rightarrow> DIDTalk) \<Rightarrow> jsstring \<Rightarrow> jsstring \<Rightarrow> LipSyncRun"
where
  "generateLipSyncVideo DID_API_KEY talks audioBase64 avatarUrl =
     (if falsyString DID_API_KEY then
        \<lparr>lipsync_result = Inl (VideoGenerationError (ascii ''D-ID API Key is not configured'')
           DID_ERROR None False),
         status_requests = 0, slept_ms = []\<rparr>
      else
        (case talk_create (talks audioBase64 avatarUrl) of
           Inr createResponse \<Rightarrow> pollStatus_loop (talk_polls (talks audioBase64 avatarUrl)) 0
         | Inl (AxiosError code descr det msg) \<Rightarrow>
             \<lparr>lipsync_result = Inl (VideoGenerationError
                (ascii ''D-ID API request failed: '' @ orElse descr (orElse det msg))
                DID_ERROR (Some msg) (code = Some 429 \<or> code = Some 503)),
              status_requests = 0, slept_ms = []\<rparr>
         | Inl (OtherFailure e) \<Rightarrow>
             (case e of
                VideoGenerationError m t orig r \<Rightarrow>
                  \<lparr>lipsync_result = Inl e, status_requests = 0, slept_ms = []\<rparr>
              | _ \<Rightarrow>
                  \<lparr>lipsync_result = Inl (VideoGenerationError
                     (ascii ''Unexpected error during video generation'')
                     UNKNOWN_ERROR (errorMessageOf e) False),
                   status_requests = 0, slept_ms = []\<rparr>)))"

text \<open>
  \<open>generateAudio\<close> of the route: without an API key it throws; otherwise it settles as
  the speech API does, \<open>Inr\<close> the bytes of the audio.
\<close>

definition generateAudio_route ::
  "jsstring option \<Rightarrow> (jsstring \<Rightarrow> thrown + nat list) \<Rightarrow> jsstring \<Rightarrow> thrown + nat list" where
  "generateAudio_route OPENAI_API_KEY speech text =
     (if falsyString OPENAI_API_KEY
      then Inl (Error (ascii ''OpenAI API Key is not configured''))
      else speech text)"

text \<open>
  The table \<open>videos\<close>: a row per id, a row being the values of its columns, texts and
  integers. The columns are those of the schema in \<open>supabase/migrations\<close> (the same list
  is in \<open>supabase/README.md\<close> and in the \<open>Video\<close> interface), with \<open>d_id_video_id\<close>
  added by migration 002; \<open>status\<close> has a \<open>CHECK\<close> constraint.
\<close>

datatype jsvalue = JSNull | JSNumber int | JSString jsstring

type_synonym row = "string \<rightharpoonup> jsvalue"

type_synonym videos_table = "jsstring \<rightharpoonup> row"

definition videos_columns :: "string list" where
  "videos_columns =
     [''id'', ''script_id'', ''title'', ''status'', ''video_url'', ''thumbnail_url'',
      ''duration'', ''avatar_id'', ''voice_id'', ''created_at'', ''updated_at'',
      ''d_id_video_id'']"

definition videos_status_values :: "jsvalue list" where
  "videos_status_values =
     [JSString (ascii ''pending''), JSString (ascii ''processing''),
      JSString (ascii ''completed''), JSString (ascii ''failed'')]"

text \<open>
  Whether the database accepts an update with these values: every column named is a
  column of the table, and a \<open>status\<close> is one of the four that the constraint allows.
\<close>

definition update_accepted :: "(string \<times> jsvalue) list \<Rightarrow> bool" where
  "update_accepted vals \<longleftrightarrow>
     list_all (\<lambda>(c, v). c \<in> set videos_columns) vals \<and>
     (case map_of vals ''status'' of
        None \<Rightarrow> True
      | Some v \<Rightarrow> v \<in> set videos_status_values)"

text \<open>
  \<open>supabase.from('videos').update(vals).eq('id', ident)\<close>: an accepted update sets the
  given columns of the row whose id matches. An update that is not accepted comes back
  as an error and changes nothing (\<open>scripts/check-schema.ts\<close> relies on this for a
  column that is missing); the route does not look at what the update returns.
\<close>

definition supabase_update ::
  "videos_table \<Rightarrow> (string \<times> jsvalue) list \<Rightarrow> jsstring \<Rightarrow> videos_table" where
  "supabase_update videos vals ident =
     (if \<not> update_accepted vals then videos
      else (case videos ident of
              None \<Rightarrow> videos
            | Some r \<Rightarrow> videos(ident \<mapsto> r ++ map_of vals)))"

text \<open>
  The \<open>while\<close> loop over the fallback avatars, entered after the primary avatar has
  failed: how it ends (\<open>Inr\<close> the value of \<open>videoUrl\<close> when the loop is left without a
  throw), with \<open>currentAvatar\<close> and the number of calls of \<open>generateLipSyncVideo\<close> made in
  this run of \<open>generateVideoAsync\<close>. \<open>remote n\<close> is the remote side of call number \<open>n\<close>
  of the run; the primary avatar was call 0, so the fallback at index \<open>i\<close> is call
  \<open>i + 1\<close>.
\<close>

function fallback_loop ::
  "jsstring option \<Rightarrow> (nat \<Rightarrow> jsstring \<Rightarrow> jsstring \<Rightarrow> DIDTalk) \<Rightarrow> AvatarConfig \<Rightarrow> jsstring \<Rightarrow>
   nat \<Rightarrow> jsstring \<Rightarrow> jsstring \<Rightarrow> (thrown + jsstring) \<times> jsstring \<times> nat"
where
  "fallback_loop DID_API_KEY remote config audioBase64 fallbackIndex currentAvatar videoUrl =
     (if fallbackIndex < length (fallbacks config) then
        (let currentAvatar' = fallbacks config ! fallbackIndex;
             fallbackIndex' = fallbackIndex + 1
         in case lipsync_result
                   (generateLipSyncVideo DID_API_KEY (remote fallbackIndex') audioBase64
                      currentAvatar') of
              Inr url \<Rightarrow> (Inr url, currentAvatar', fallbackIndex' + 1)
            | Inl fallbackError \<Rightarrow>
                if fallbackIndex' \<ge> length (fallbacks config)
                then (Inl fallbackError, currentAvatar', fallbackIndex' + 1)
                else fallback_loop DID_API_KEY remote config audioBase64 fallbackIndex'
                       currentAvatar' videoUrl)
      else (Inr videoUrl, currentAvatar, fallbackIndex + 1))"
  by pat_completeness auto
termination
  by (relation "measure (\<lambda>(k, remote, config, audio, fallbackIndex, avatar, url).
        length (fallbacks config) - fallbackIndex)") auto

declare fallback_loop.simps [simp del]

text \<open>
  Step 2 of \<open>generateVideoAsync\<close>: the primary avatar, then the fallbacks when the
  primary failed with a retryable \<open>VideoGenerationError\<close> and there is a fallback.
\<close>

definition generateWithFallback ::
  "jsstring option \<Rightarrow> (nat \<Rightarrow> jsstring \<Rightarrow> jsstring \<Rightarrow> DIDTalk) \<Rightarrow> AvatarConfig \<Rightarrow> jsstring \<Rightarrow>
   jsstring \<Rightarrow> (thrown + jsstring) \<times> jsstring \<times> nat"
where
  "generateWithFallback DID_API_KEY remote config audioBase64 currentAvatar =
     (case lipsync_result (generateLipSyncVideo DID_API_KEY (remote 0) audioBase64 currentAvatar) of
        Inr url \<Rightarrow> (Inr url, currentAvatar, 1)
      | Inl e \<Rightarrow>
          if retryableClassified e \<and> 0 < length (fallbacks config)
          then fallback_loop DID_API_KEY remote config audioBase64 0 currentAvatar []
          else (Inl e, currentAvatar, 1))"

text \<open>The environment of the route: the two API keys, the speech API and the D-ID API.\<close>

record RouteEnv =
  OPENAI_API_KEY :: "jsstring option"
  DID_API_KEY :: "jsstring option"
  speech :: "jsstring \<Rightarrow> thrown + nat list"
  did_remote :: "nat \<Rightarrow> jsstring \<Rightarrow> jsstring \<Rightarrow> DIDTalk"

text \<open>
  What one run of \<open>generateVideoAsync\<close> left behind: the table, the avatar in
  \<open>currentAvatar\<close> at the end (it is logged, not stored) and the number of calls of
  \<open>generateLipSyncVideo\<close>.
\<close>

record AsyncRun =
  videos_after :: videos_table
  avatar_at_end :: jsstring
  lipsync_calls :: nat

text \<open>
  \<open>generateVideoAsync\<close>. \<open>toBase64\<close> is \<open>Buffer.from(b).toString('base64')\<close>. The
  default message of the \<open>catch\<close> block says "video generation failed".
\<close>

definition DEFAULT_FAILURE_MESSAGE :: jsstring where
  "DEFAULT_FAILURE_MESSAGE =
     [0x52D5, 0x753B, 0x751F, 0x6210, 0x306B, 0x5931, 0x6557, 0x3057, 0x307E, 0x3057, 0x305F]"

text \<open>The values of the update in the \<open>catch\<close> block, for the value caught.\<close>

definition failure_update :: "thrown \<Rightarrow> (string \<times> jsvalue) list" where
  "failure_update e =
     [(''status'', JSString (ascii ''failed'')),
      (''error_message'',
       JSString (case errorMessageOf e of Some m \<Rightarrow> m
                 | None \<Rightarrow> DEFAULT_FAILURE_MESSAGE))]"

definition generateVideoAsync ::
  "RouteEnv \<Rightarrow> (nat list \<Rightarrow> jsstring) \<Rightarrow> AvatarConfig \<Rightarrow> videos_table \<Rightarrow> jsstring \<Rightarrow> jsstring \<Rightarrow>
   jsstring option \<Rightarrow> AsyncRun"
where
  "generateVideoAsync env toBase64 config videos videoId scriptContent avatarUrl =
     (let currentAvatar = orElse avatarUrl (primary config);
          videos1 = supabase_update videos
                      [(''status'', JSString (ascii ''processing''))] videoId
      in case generateAudio_route (OPENAI_API_KEY env) (speech env) scriptContent of
        Inl e \<Rightarrow>
          \<lparr>videos_after = supabase_update videos1 (failure_update e) videoId,
           avatar_at_end = currentAvatar, lipsync_calls = 0\<rparr>
      | Inr audioBuffer \<Rightarrow>
     (let audioBase64 = toBase64 audioBuffer
      in case generateWithFallback (DID_API_KEY env) (did_remote env) config audioBase64
                currentAvatar of
        (Inl e, avatar, n) \<Rightarrow>
          \<lparr>videos_after = supabase_update videos1 (failure_update e) videoId,
           avatar_at_end = avatar, lipsync_calls = n\<rparr>
      | (Inr videoUrl, avatar, n) \<Rightarrow>
          (let duration = int (length scriptContent) div 5
           in \<lparr>videos_after = supabase_update videos1
                 [(''status'', JSString (ascii ''completed'')),
                  (''video_url'', JSString videoUrl),
                  (''duration'', JSNumber duration)] videoId,
               avatar_at_end = avatar, lipsync_calls = n\<rparr>)))"

text \<open>
  A status request after which the polling loop of \<open>generateLipSyncVideo\<close> goes on: the
  request threw, or the status is none of \<open>done\<close>, \<open>error\<close> and \<open>rejected\<close>.
\<close>

definition pending_poll :: "DIDStatusResponse option \<Rightarrow> bool" where
  "pending_poll p =
     (case p of
        None \<Rightarrow> True
      | Some response \<Rightarrow>
          talk_status response \<noteq> ascii ''done'' \<and> talk_status response \<noteq> ascii ''error'' \<and>
          talk_status response \<noteq> ascii ''rejected'')"

text \<open>Remote sides of a call of \<open>generateLipSyncVideo\<close>, for the examples.\<close>

definition accepted :: "axios_failure + DIDCreateResponse" where
  "accepted = Inr \<lparr>talk_id = ascii ''tlk_1'', create_status = ascii ''created''\<rparr>"

definition status_of :: "string \<Rightarrow> jsstring option \<Rightarrow> DIDStatusResponse option" where
  "status_of st url = Some \<lparr>talk_status = ascii st, talk_result_url = url, talk_error = None\<rparr>"

text \<open>The third status request reports \<open>done\<close> with a URL, after a failed request and \<open>started\<close>.\<close>

definition talk_done_third :: "jsstring \<Rightarrow> jsstring \<Rightarrow> DIDTalk" where
  "talk_done_third audio avatar =
     \<lparr>talk_create = accepted,
      talk_polls = (\<lambda>k. if k = 0 then None
                        else if k = 1 then status_of ''started'' None
                        else status_of ''done'' (Some (ascii ''https://d-id.example/v.mp4'')))\<rparr>"

text \<open>The first status request reports \<open>done\<close> without a URL.\<close>

definition talk_done_no_url :: "jsstring \<Rightarrow> jsstring \<Rightarrow> DIDTalk" where
  "talk_done_no_url audio avatar =
     \<lparr>talk_create = accepted, talk_polls = (\<lambda>k. status_of ''done'' None)\<rparr>"

text \<open>The first status request reports \<open>rejected\<close>.\<close>

definition talk_rejected :: "jsstring \<Rightarrow> jsstring \<Rightarrow> DIDTalk" where
  "talk_rejected audio avatar =
     \<lparr>talk_create = accepted, talk_polls = (\<lambda>k. status_of ''rejected'' None)\<rparr>"

text \<open>Every status request reports \<open>started\<close>.\<close>

definition talk_never_done :: "jsstring \<Rightarrow> jsstring \<Rightarrow> DIDTalk" where
  "talk_never_done audio avatar =
     \<lparr>talk_create = accepted, talk_polls = (\<lambda>k. status_of ''started'' None)\<rparr>"

text \<open>
  The table after the \<open>POST\<close> handler has inserted the row of a new video, and two
  environments of the route: in the first the primary avatar and the first fallback fail
  and the second fallback succeeds, in the second every avatar fails.
\<close>

definition inserted_videos :: videos_table where
  "inserted_videos =
     [ascii ''v1'' \<mapsto> [''script_id'' \<mapsto> JSString (ascii ''s1''),
                        ''title'' \<mapsto> JSString (ascii ''Untitled Video''),
                        ''status'' \<mapsto> JSString (ascii ''pending'')]]"

definition second_fallback_env :: RouteEnv where
  "second_fallback_env =
     \<lparr>OPENAI_API_KEY = Some (ascii ''sk''), DID_API_KEY = Some (ascii ''key''),
      speech = (\<lambda>text. Inr [73, 68, 51]),
      did_remote = (\<lambda>n. if n = 0 then talk_done_no_url
                         else if n = 1 then talk_rejected else talk_done_third)\<rparr>"


text \<open>The base64 text of the three bytes that the speech API of the examples returns.\<close>

definition base64_of_example :: "nat list \<Rightarrow> jsstring" where
  "base64_of_example bytes = ascii ''SUQz''"

text \<open>The runs of \<open>generateVideoAsync\<close> in these two environments, with no avatar chosen.\<close>

definition second_fallback_run :: AsyncRun where
  "second_fallback_run =
     generateVideoAsync second_fallback_env base64_of_example DID_AVATAR_CONFIG inserted_videos
       (ascii ''v1'') (ascii ''Hello, world!'') None"


text \<open>An operation whose invocation number \<open>k\<close> rejects with a retryable error.\<close>

definition always_timeout :: "nat \<Rightarrow> thrown + jsstring" where
  "always_timeout k =
     Inl (VideoGenerationError (ascii ''timeout '' @ toDecimal k) DID_ERROR None True)"

text \<open>A script of ten letters behind 4991 spaces: 5001 code units, ten after trimming.\<close>

definition padded_script :: jsstring where
  "padded_script = replicate 4991 0x20 @ ascii ''abcdefghij''"

section \<open>Properties of the validator\<close>

lemma trim_replicate_ws: "isWhiteSpace c \<Longrightarrow> trim (replicate n c @ s) = trim s"
  by (induction n) (simp_all add: trim_def)

lemma length_trim_le: "length (trim s) \<le> length s"
proof -
  have "length (trim s) \<le> length (dropWhile isWhiteSpace s)"
    unfolding trim_def using length_dropWhile_le [of isWhiteSpace "rev (dropWhile isWhiteSpace s)"]
    by simp
  also have "\<dots> \<le> length s" by (rule length_dropWhile_le)
  finally show ?thesis .
qed

lemma trim_padded_script: "trim padded_script = ascii ''abcdefghij''"
proof -
  have "isWhiteSpace 0x20" by (simp add: isWhiteSpace_def)
  then have "trim padded_script = trim (ascii ''abcdefghij'')"
    unfolding padded_script_def by (rule trim_replicate_ws)
  also have "\<dots> = ascii ''abcdefghij''"
    by (simp add: trim_def ascii_def isWhiteSpace_def)
  finally show ?thesis .
qed

lemma too_long_neq_too_short: "MSG_SCRIPT_TOO_LONG n \<noteq> MSG_SCRIPT_TOO_SHORT"
  by (simp add: MSG_SCRIPT_TOO_LONG_def MSG_SCRIPT_TOO_SHORT_def MAX_SCRIPT_LENGTH_def
      toDecimal.simps)

lemma empty_neq_too_short: "MSG_SCRIPT_EMPTY \<noteq> MSG_SCRIPT_TOO_SHORT"
  by (simp add: MSG_SCRIPT_EMPTY_def MSG_SCRIPT_TOO_SHORT_def)

text \<open>
  C6, as amended: a script whose trimmed length is at least 10 and whose raw length is at
  most 5000 validates with \<open>isValid = true\<close> and no error. The upper limit is checked on
  the raw length, not on the trimmed one.
\<close>

theorem validateScript_accepts:
  assumes "10 \<le> length (trim script)" and "length script \<le> 5000"
  shows "validateScript script = \<lparr>isValid = True, errors = []\<rparr>"
proof -
  from assms(1) have "trim script \<noteq> []"
    by auto
  moreover from assms(1) have "script \<noteq> []"
    using length_trim_le [of script] by auto
  ultimately show ?thesis
    using assms by (simp add: validateScript_def MAX_SCRIPT_LENGTH_def)
qed

theorem validateScript_accepts_witness:
  "validateScript (ascii ''0123456789'') = \<lparr>isValid = True, errors = []\<rparr>"
  by (rule validateScript_accepts) (simp_all add: trim_def ascii_def isWhiteSpace_def)

text \<open>
  C6 as stated fails: \<open>padded_script\<close> has trimmed length 10, inside [10, 5000], and is
  rejected with the upper limit message, because its raw length is 5001.
\<close>

theorem validateScript_trimmed_range_counterexample:
  "10 \<le> length (trim padded_script) \<and> length (trim padded_script) \<le> 5000 \<and>
   validateScript padded_script =
     \<lparr>isValid = False, errors = [MSG_SCRIPT_TOO_LONG 5001]\<rparr>"
proof -
  have t: "length (trim padded_script) = 10"
    by (simp add: trim_padded_script ascii_def)
  have l: "length padded_script = 5001"
    by (simp add: padded_script_def ascii_def)
  have n: "padded_script \<noteq> []"
    using l by auto
  show ?thesis
    by (simp add: validateScript_def t l n MAX_SCRIPT_LENGTH_def)
qed

text \<open>
  C7, as amended: when the trimmed length is between 1 and 9 the error list contains the
  minimum length message, whatever the other checks pushed; when the trimmed length is 0
  the list contains the emptiness message and not the minimum length message (the lower
  limit check is guarded by \<open>script.trim().length > 0\<close>).
\<close>

theorem validateScript_too_short:
  "(0 < length (trim script) \<and> length (trim script) < 10 \<longrightarrow>
      MSG_SCRIPT_TOO_SHORT \<in> set (errors (validateScript script)) \<and>
      \<not> isValid (validateScript script)) \<and>
   (length (trim script) = 0 \<longrightarrow>
      MSG_SCRIPT_EMPTY \<in> set (errors (validateScript script)) \<and>
      MSG_SCRIPT_TOO_SHORT \<notin> set (errors (validateScript script)) \<and>
      \<not> isValid (validateScript script))"
  using too_long_neq_too_short [of "length script"] empty_neq_too_short
  by (auto simp: validateScript_def Let_def)

theorem validateScript_too_short_witness:
  "(0 < length (trim (ascii ''short'')) \<and> length (trim (ascii ''short'')) < 10) \<and>
   MSG_SCRIPT_TOO_SHORT \<in> set (errors (validateScript (ascii ''short''))) \<and>
   length (trim (ascii ''   '')) = 0 \<and>
   MSG_SCRIPT_EMPTY \<in> set (errors (validateScript (ascii ''   ''))) \<and>
   MSG_SCRIPT_TOO_SHORT \<notin> set (errors (validateScript (ascii ''   '')))"
proof -
  have s: "trim (ascii ''short'') = ascii ''short''"
    by (simp add: trim_def ascii_def isWhiteSpace_def)
  have b: "trim (ascii ''   '') = []"
    by (simp add: trim_def ascii_def isWhiteSpace_def)
  have ls: "length (ascii ''short'') = 5"
    by (simp add: ascii_def)
  show ?thesis
    using validateScript_too_short [of "ascii ''short''"]
      validateScript_too_short [of "ascii ''   ''"]
    by (simp add: s b ls)
qed

text \<open>
  C7 as stated fails at the empty script: its trimmed length is 0, below 10, and the
  error list is the emptiness message alone.
\<close>

theorem validateScript_empty_counterexample:
  "length (trim []) < 10 \<and>
   errors (validateScript []) = [MSG_SCRIPT_EMPTY] \<and>
   MSG_SCRIPT_TOO_SHORT \<notin> set (errors (validateScript []))"
  using empty_neq_too_short
  by (simp add: validateScript_def trim_def MAX_SCRIPT_LENGTH_def)

section \<open>Properties of the retry executor\<close>

lemma withRetry_loop_all_retried:
  assumes "\<And>k. k \<le> n \<Longrightarrow> \<exists>e. fn k = Inl e \<and> retryableClassified e"
    and "a \<le> n" and "maxRetries config = int n"
  shows "outcome (withRetry_loop fn config a lastError slept) = fn n \<and>
         calls (withRetry_loop fn config a lastError slept) = n + 1 \<and>
         length (sleeps (withRetry_loop fn config a lastError slept)) = length slept + (n - a)"
  using assms(2)
proof (induction "n - a" arbitrary: a lastError slept)
  case 0
  then have an: "a = n" by simp
  from assms(1) [of n] obtain e0 where "fn n = Inl e0" and "retryableClassified e0"
    by auto
  then obtain m t orig where e: "fn n = Inl (VideoGenerationError m t orig True)"
    by (cases e0) auto
  show ?case
    by (subst (1 2 3) withRetry_loop.simps) (simp add: an assms(3) e retryFailed_def)
next
  case (Suc d)
  then have lt: "a < n" and d: "d = n - (a + 1)" and le: "a + 1 \<le> n" by simp_all
  from assms(1) [of a] lt obtain e0 where "fn a = Inl e0" and "retryableClassified e0"
    by auto
  then obtain m t orig where e: "fn a = Inl (VideoGenerationError m t orig True)"
    by (cases e0) auto
  from Suc.hyps(1) [OF d le] lt show ?case
    by (subst (1 2 3) withRetry_loop.simps) (simp add: assms(3) e)
qed

text \<open>
  C4: when every invocation of \<open>f\<close> rejects with a retryable classified error,
  \<open>withRetry\<close> with \<open>maxRetries = 3\<close>, \<open>retryDelay = 1000\<close> and exponential backoff
  invokes \<open>f\<close> exactly 4 times and rejects with the error of the 4th invocation.
\<close>

theorem withRetry_always_retryable:
  assumes "\<forall>k. \<exists>e. fn k = Inl e \<and> retryableClassified e"
  shows "calls (withRetry fn \<lparr>maxRetries = 3, retryDelay = 1000, exponentialBackoff = True\<rparr>) = 4 \<and>
         outcome (withRetry fn \<lparr>maxRetries = 3, retryDelay = 1000, exponentialBackoff = True\<rparr>)
           = fn 3 \<and>
         (\<exists>m t orig. fn 3 = Inl (VideoGenerationError m t orig True))"
proof -
  from assms have r: "\<And>k. k \<le> 3 \<Longrightarrow> \<exists>e. fn k = Inl e \<and> retryableClassified e"
    by simp
  from assms obtain e0 where "fn 3 = Inl e0" and "retryableClassified e0"
    by blast
  then obtain m t orig where "fn 3 = Inl (VideoGenerationError m t orig True)"
    by (cases e0) auto
  then show ?thesis
    using withRetry_loop_all_retried [of 3 fn 0 _ None "[]", OF r]
    by (simp add: withRetry_def)
qed

theorem withRetry_always_retryable_witness:
  "calls (withRetry always_timeout
            \<lparr>maxRetries = 3, retryDelay = 1000, exponentialBackoff = True\<rparr>) = 4 \<and>
   outcome (withRetry always_timeout
            \<lparr>maxRetries = 3, retryDelay = 1000, exponentialBackoff = True\<rparr>)
     = Inl (VideoGenerationError (ascii ''timeout 3'') DID_ERROR None True)"
proof -
  have "\<forall>k. \<exists>e. always_timeout k = Inl e \<and> retryableClassified e"
    by (simp add: always_timeout_def)
  moreover have "always_timeout 3 =
      Inl (VideoGenerationError (ascii ''timeout 3'') DID_ERROR None True)"
    by (simp add: always_timeout_def toDecimal.simps ascii_def)
  ultimately show ?thesis
    using withRetry_always_retryable [of always_timeout] by simp
qed

text \<open>
  C5: when the first invocation of \<open>f\<close> rejects with a classified error whose
  \<open>retryable\<close> flag is false, \<open>withRetry\<close> invokes \<open>f\<close> once, sleeps never and rejects
  with that error, for every \<open>maxRetries\<close> that a \<open>RetryConfig\<close> can hold (an integer
  that is not negative), every delay and either backoff mode.
\<close>

theorem withRetry_non_retryable:
  assumes "fn 0 = Inl (VideoGenerationError m t orig False)" and "0 \<le> maxRetries config"
  shows "withRetry fn config =
           \<lparr>outcome = Inl (VideoGenerationError m t orig False), calls = 1, sleeps = []\<rparr>"
  using assms by (simp add: withRetry_def withRetry_loop.simps)

theorem withRetry_non_retryable_witness:
  "withRetry (\<lambda>k. if k = 0 then Inl (VideoGenerationError (ascii ''bad key'') DID_ERROR None False)
                  else Inr (ascii ''url'')) DEFAULT_RETRY_CONFIG =
     \<lparr>outcome = Inl (VideoGenerationError (ascii ''bad key'') DID_ERROR None False),
      calls = 1, sleeps = []\<rparr>"
  by (rule withRetry_non_retryable) (simp_all add: DEFAULT_RETRY_CONFIG_def)

section \<open>Properties of the D-ID client\<close>

lemma ascii_done_neq_error: "ascii ''done'' \<noteq> ascii ''error''"
  by (simp add: ascii_def)

lemma getVideoStatus_doneWithoutUrl:
  assumes "doneWithoutUrl f"
  shows "\<exists>d. getVideoStatus f = Inr d \<and> did_status d = ascii ''done'' \<and>
             falsyString (result_url d)"
  using assms
  by (cases f) (simp_all add: doneWithoutUrl_def getVideoStatus_def didRequest_def)

lemma waitForVideoCompletion_loop_step:
  assumes "doneWithoutUrl (remote attempt)" and "int attempt < maxAttempts"
  shows "waitForVideoCompletion_loop remote maxAttempts intervalMs attempt slept =
         waitForVideoCompletion_loop remote maxAttempts intervalMs (attempt + 1)
           (if int attempt < maxAttempts - 1 then slept @ [intervalMs] else slept)"
proof -
  from getVideoStatus_doneWithoutUrl [OF assms(1)] obtain d
    where d: "getVideoStatus (remote attempt) = Inr d" "did_status d = ascii ''done''"
      "falsyString (result_url d)"
    by blast
  show ?thesis
    by (subst waitForVideoCompletion_loop.simps)
      (simp add: assms(2) d ascii_done_neq_error del: One_nat_def)
qed

lemma waitForVideoCompletion_loop_all_done_without_url:
  assumes "\<And>k. doneWithoutUrl (remote k)" and "int a \<le> maxAttempts"
  shows "settled (waitForVideoCompletion_loop remote maxAttempts intervalMs a slept) =
           Inl (Error (ascii ''Video generation timeout'')) \<and>
         polls (waitForVideoCompletion_loop remote maxAttempts intervalMs a slept) =
           nat maxAttempts"
  using assms(2)
proof (induction "nat maxAttempts - a" arbitrary: a slept)
  case 0
  then have "\<not> int a < maxAttempts" and "a = nat maxAttempts" by simp_all
  then show ?case
    by (subst (1 2) waitForVideoCompletion_loop.simps) simp
next
  case (Suc d)
  then have lt: "int a < maxAttempts" and d: "d = nat maxAttempts - (a + 1)"
    and le: "int (a + 1) \<le> maxAttempts"
    by simp_all
  show ?case
    unfolding waitForVideoCompletion_loop_step [OF assms(1) lt]
    by (rule Suc.hyps(1) [OF d le])
qed

text \<open>
  C9: a status response with status \<open>done\<close> and no \<open>result_url\<close> neither returns nor
  raises at its attempt: the loop goes on to the next attempt (after sleeping, unless the
  attempt was the last). When every response is of this kind the call raises
  \<open>Video generation timeout\<close> after \<open>maxAttempts\<close> status requests.
\<close>

theorem waitForVideoCompletion_done_without_url:
  "(doneWithoutUrl (remote attempt) \<and> int attempt < maxAttempts \<longrightarrow>
      waitForVideoCompletion_loop remote maxAttempts intervalMs attempt slept =
      waitForVideoCompletion_loop remote maxAttempts intervalMs (attempt + 1)
        (if int attempt < maxAttempts - 1 then slept @ [intervalMs] else slept)) \<and>
   ((\<forall>k. doneWithoutUrl (remote k)) \<and> 0 \<le> maxAttempts \<longrightarrow>
      settled (waitForVideoCompletion remote maxAttempts intervalMs) =
        Inl (Error (ascii ''Video generation timeout'')) \<and>
      int (polls (waitForVideoCompletion remote maxAttempts intervalMs)) = maxAttempts)"
  using waitForVideoCompletion_loop_step [of remote attempt maxAttempts intervalMs slept]
    waitForVideoCompletion_loop_all_done_without_url [of remote 0 maxAttempts intervalMs "[]"]
  by (simp add: waitForVideoCompletion_def)

theorem waitForVideoCompletion_done_without_url_witness:
  "doneWithoutUrl (done_no_url_remote 0) \<and> int 0 < 30 \<and>
   waitForVideoCompletion_loop done_no_url_remote 30 5000 0 [] =
     waitForVideoCompletion_loop done_no_url_remote 30 5000 1 [5000] \<and>
   settled (waitForVideoCompletion_default done_no_url_remote) =
     Inl (Error (ascii ''Video generation timeout'')) \<and>
   polls (waitForVideoCompletion_default done_no_url_remote) = 30"
proof -
  have d: "\<forall>k. doneWithoutUrl (done_no_url_remote k)"
    by (simp add: doneWithoutUrl_def done_no_url_remote_def response_ok_def)
  show ?thesis
    using d waitForVideoCompletion_done_without_url [of done_no_url_remote 0 30 5000 "[]"]
    by (simp add: waitForVideoCompletion_default_def)
qed

text \<open>
  In \<open>waitForVideoCompletion\<close> the status \<open>rejected\<close> is not among the statuses that end
  the loop: after such a response the loop goes on to the next attempt.
\<close>

lemma waitForVideoCompletion_loop_rejected_goes_on:
  assumes "remote attempt = Response code statusText data" and "response_ok code"
    and "did_status data = ascii ''rejected''" and "int attempt < maxAttempts"
  shows "waitForVideoCompletion_loop remote maxAttempts intervalMs attempt slept =
         waitForVideoCompletion_loop remote maxAttempts intervalMs (attempt + 1)
           (if int attempt < maxAttempts - 1 then slept @ [intervalMs] else slept)"
proof -
  have "ascii ''rejected'' \<noteq> ascii ''done''" and "ascii ''rejected'' \<noteq> ascii ''error''"
    by (simp_all add: ascii_def)
  moreover have "getVideoStatus (remote attempt) = Inr data"
    using assms(1,2) by (simp add: getVideoStatus_def didRequest_def)
  ultimately show ?thesis
    using assms(3,4) by (subst waitForVideoCompletion_loop.simps) (simp del: One_nat_def)
qed

section \<open>Properties of the orchestrator with a database\<close>

text \<open>
  C10: for a script id that is not in the database, \<open>generateVideo\<close> of the orchestrator
  returns a rejected promise, not a \<open>{success: false}\<close> result: the \<open>Script not found\<close>
  error thrown by \<open>updateScriptStatus(scriptId, 'failed')\<close> inside the \<open>catch\<close> block
  leaves the function. Nothing is written and no progress value is delivered.
\<close>

theorem generateVideo_orchestrator_unknown_script:
  assumes "db scriptId = None"
  shows "generateVideo_orchestrator remote presenterImageUrl onProgress now db scriptId =
           \<lparr>promise = Inl (Error (ascii ''Script not found: '' @ scriptId)),
            database = db, delivered = []\<rparr> \<and>
         updateScriptStatus db now scriptId failed =
           Inl (Error (ascii ''Script not found: '' @ scriptId))"
  using assms
  by (simp add: generateVideo_orchestrator_def generateVideo_try_def getScript_def
      updateScriptStatus_def)

theorem generateVideo_orchestrator_unknown_script_witness:
  "generateVideo_orchestrator prompt_remote (ascii ''https://example.com/presenter.jpg'')
     True 0 Map.empty (ascii ''script_1'') =
     \<lparr>promise = Inl (Error (ascii ''Script not found: '' @ ascii ''script_1'')),
      database = Map.empty, delivered = []\<rparr>"
  using generateVideo_orchestrator_unknown_script
    [of Map.empty "ascii ''script_1''" prompt_remote
      "ascii ''https://example.com/presenter.jpg''" True 0]
  by simp

section \<open>Properties of the generation service with progress\<close>

lemma validateScriptOrThrow_digits: "validateScriptOrThrow (ascii ''0123456789'') = None"
  by (simp add: validateScriptOrThrow_def validateScript_def Let_def trim_def ascii_def
      isWhiteSpace_def MAX_SCRIPT_LENGTH_def)

lemma network_timeout_retryable:
  "isRetryableError asciiLower (ascii ''Network Timeout'') OPENAI_ERROR"
  by (simp add: isRetryableError_def asciiLower_def ascii_def retryableMessages_def)

lemma withRetry_flaky_openai:
  "withRetry (\<lambda>k. generateAudio asciiLower (flaky_openai s k)) DEFAULT_RETRY_CONFIG =
     \<lparr>outcome = Inr (ascii ''https://example.com/audio.mp3''), calls = 2, sleeps = [1000]\<rparr>"
  by (simp add: withRetry_def withRetry_loop.simps DEFAULT_RETRY_CONFIG_def flaky_openai_def
      generateAudio_def createApiError_def network_timeout_retryable)

lemma withRetry_steady_did:
  "withRetry (\<lambda>k. generateVideoFromAudio asciiLower (steady_did s k)) DEFAULT_RETRY_CONFIG =
     \<lparr>outcome = Inr (ascii ''https://example.com/video.mp4''), calls = 1, sleeps = []\<rparr>"
  by (simp add: withRetry_def withRetry_loop.simps DEFAULT_RETRY_CONFIG_def steady_did_def
      generateVideoFromAudio_def callDIDAPI_def)

lemma generateVideo_flaky_run:
  "generateVideo asciiLower flaky_openai steady_did True 1000 9500 (ascii ''0123456789'') =
     \<lparr>returned = Inr \<lparr>gen_videoUrl = ascii ''https://example.com/video.mp4'',
                        gen_audioUrl = ascii ''https://example.com/audio.mp3'',
                        gen_duration = 8\<rparr>,
      snapshots = updateProgress True VALIDATING None @
                  updateProgress True GENERATING_AUDIO None @
                  updateProgress True GENERATING_VIDEO None @
                  updateProgress True COMPLETED None,
      audio_calls = 2, video_calls = 1\<rparr>"
  by (simp add: generateVideo_def validateScriptOrThrow_digits withRetry_flaky_openai
      withRetry_steady_did)

text \<open>
  C8: when a run of \<open>generateVideo\<close> with a callback attached succeeds, the callback has
  received exactly four snapshots, in this order: \<open>VALIDATING\<close> with progress 10,
  \<open>GENERATING_AUDIO\<close> with 30, \<open>GENERATING_VIDEO\<close> with 70 and \<open>COMPLETED\<close> with 100,
  each with the message of \<open>PROGRESS_STEPS\<close> and no error, whatever the remote APIs did
  and however often \<open>withRetry\<close> called them.
\<close>

theorem generateVideo_success_snapshots:
  assumes "returned (generateVideo toLowerCase openai did True startTime endTime script) = Inr r"
  shows "snapshots (generateVideo toLowerCase openai did True startTime endTime script) =
           [\<lparr>currentStep = VALIDATING, progress = 10,
             message = config_message (PROGRESS_STEPS VALIDATING), step_error = None\<rparr>,
            \<lparr>currentStep = GENERATING_AUDIO, progress = 30,
             message = config_message (PROGRESS_STEPS GENERATING_AUDIO), step_error = None\<rparr>,
            \<lparr>currentStep = GENERATING_VIDEO, progress = 70,
             message = config_message (PROGRESS_STEPS GENERATING_VIDEO), step_error = None\<rparr>,
            \<lparr>currentStep = COMPLETED, progress = 100,
             message = config_message (PROGRESS_STEPS COMPLETED), step_error = None\<rparr>]"
  using assms
  by (auto simp: generateVideo_def updateProgress_def Let_def
      split: option.splits sum.splits)

theorem generateVideo_success_snapshots_witness:
  "returned (generateVideo asciiLower flaky_openai steady_did True 1000 9500
      (ascii ''0123456789'')) =
     Inr \<lparr>gen_videoUrl = ascii ''https://example.com/video.mp4'',
          gen_audioUrl = ascii ''https://example.com/audio.mp3'', gen_duration = 8\<rparr> \<and>
   audio_calls (generateVideo asciiLower flaky_openai steady_did True 1000 9500
      (ascii ''0123456789'')) = 2 \<and>
   map (\<lambda>p. (currentStep p, progress p))
     (snapshots (generateVideo asciiLower flaky_openai steady_did True 1000 9500
        (ascii ''0123456789''))) =
     [(VALIDATING, 10), (GENERATING_AUDIO, 30), (GENERATING_VIDEO, 70), (COMPLETED, 100)]"
proof -
  have r: "returned (generateVideo asciiLower flaky_openai steady_did True 1000 9500
      (ascii ''0123456789'')) =
     Inr \<lparr>gen_videoUrl = ascii ''https://example.com/video.mp4'',
          gen_audioUrl = ascii ''https://example.com/audio.mp3'', gen_duration = 8\<rparr>"
    by (simp add: generateVideo_flaky_run)
  have c: "audio_calls (generateVideo asciiLower flaky_openai steady_did True 1000 9500
      (ascii ''0123456789'')) = 2"
    by (simp add: generateVideo_flaky_run)
  from generateVideo_success_snapshots [OF r] r c show ?thesis
    by simp
qed

section \<open>Properties of the polling loop of the route\<close>

lemma pollStatus_loop_pending:
  assumes "pending_poll (polled a)" and "a < route_maxAttempts"
  shows "pollStatus_loop polled a = pollStatus_loop polled (a + 1)"
  using assms
  by (subst pollStatus_loop.simps) (auto simp: pending_poll_def split: option.splits)

lemma pollStatus_loop_skip:
  assumes "\<forall>i. a \<le> i \<and> i < k \<longrightarrow> pending_poll (polled i)" and "a \<le> k"
    and "k \<le> route_maxAttempts"
  shows "pollStatus_loop polled a = pollStatus_loop polled k"
  using assms(1,2)
proof (induction "k - a" arbitrary: a)
  case 0
  then show ?case by simp
next
  case (Suc d)
  then have lt: "a < k" and p: "pending_poll (polled a)" by auto
  from lt assms(3) have "a < route_maxAttempts" by simp
  then have "pollStatus_loop polled a = pollStatus_loop polled (a + 1)"
    using p by (rule pollStatus_loop_pending [of polled a, rotated])
  also have "\<dots> = pollStatus_loop polled k"
    using Suc.hyps(2) Suc.prems lt by (intro Suc.hyps(1)) auto
  finally show ?case .
qed

lemma timeout_message:
  "ascii ''Video generation timed out after '' @ toDecimal (route_maxAttempts * 10)
     @ ascii '' seconds'' = ascii ''Video generation timed out after 600 seconds''"
  by (simp add: route_maxAttempts_def toDecimal.simps ascii_def)

lemma pollStatus_loop_done:
  assumes "k < 60" and "polled k = Some response" and "talk_status response = ascii ''done''"
  shows "pollStatus_loop polled k =
           \<lparr>lipsync_result =
              (if orElse (talk_result_url response) [] = []
               then Inl (VideoGenerationError
                      (ascii ''D-ID API returned success but no video URL'') DID_ERROR None True)
               else Inr (orElse (talk_result_url response) [])),
            status_requests = k + 1, slept_ms = replicate (k + 1) 10000\<rparr>"
  using assms by (subst pollStatus_loop.simps) (simp add: route_maxAttempts_def Let_def)

lemma pollStatus_loop_failed:
  assumes "k < 60" and "polled k = Some response"
    and "talk_status response = ascii ''error'' \<or> talk_status response = ascii ''rejected''"
  shows "pollStatus_loop polled k =
           \<lparr>lipsync_result = Inl (VideoGenerationError
              (ascii ''D-ID video generation failed: '' @ jobErrorMessage response)
              DID_ERROR (Some (jobErrorMessage response)) False),
            status_requests = k + 1, slept_ms = replicate (k + 1) 10000\<rparr>"
proof -
  have "ascii ''done'' \<noteq> ascii ''error''" and "ascii ''done'' \<noteq> ascii ''rejected''"
    by (simp_all add: ascii_def)
  with assms show ?thesis
    by (subst pollStatus_loop.simps) (auto simp: route_maxAttempts_def Let_def)
qed

lemma pollStatus_loop_exhausted:
  "pollStatus_loop polled 60 =
     \<lparr>lipsync_result = Inl (VideoGenerationError
        (ascii ''Video generation timed out after 600 seconds'') DID_ERROR None True),
      status_requests = 60, slept_ms = replicate 60 10000\<rparr>"
  using timeout_message
  by (subst pollStatus_loop.simps) (simp add: route_maxAttempts_def)

text \<open>
  C3, as amended, for the polling loop of \<open>generateLipSyncVideo\<close> (at most 60 status
  requests, each after a sleep of 10000 ms), once the job is created. Let \<open>k\<close> status
  requests have been pending (failed, or with a status other than \<open>done\<close>, \<open>error\<close>,
  \<open>rejected\<close>). If request \<open>k\<close> reports \<open>done\<close> with a \<open>result_url\<close> that is not empty,
  the URL is returned; if it reports \<open>done\<close> without one, a retryable \<open>DID_ERROR\<close> is
  raised; if it reports \<open>error\<close> or \<open>rejected\<close>, a \<open>DID_ERROR\<close> that is not retryable is
  raised; and after 60 pending requests a retryable \<open>DID_ERROR\<close> (timeout) is raised.
\<close>

theorem generateLipSyncVideo_polling:
  assumes "\<not> falsyString key" and "talk_create (talks audio avatar) = Inr createResponse"
    and "\<forall>i<k. pending_poll (talk_polls (talks audio avatar) i)"
  shows "(k < 60 \<and> talk_polls (talks audio avatar) k = Some response \<and>
          talk_status response = ascii ''done'' \<and> talk_result_url response = Some url \<and>
          url \<noteq> [] \<longrightarrow>
            generateLipSyncVideo key talks audio avatar =
              \<lparr>lipsync_result = Inr url, status_requests = k + 1,
               slept_ms = replicate (k + 1) 10000\<rparr>) \<and>
         (k < 60 \<and> talk_polls (talks audio avatar) k = Some response \<and>
          talk_status response = ascii ''done'' \<and> falsyString (talk_result_url response) \<longrightarrow>
            generateLipSyncVideo key talks audio avatar =
              \<lparr>lipsync_result = Inl (VideoGenerationError
                 (ascii ''D-ID API returned success but no video URL'') DID_ERROR None True),
               status_requests = k + 1, slept_ms = replicate (k + 1) 10000\<rparr>) \<and>
         (k < 60 \<and> talk_polls (talks audio avatar) k = Some response \<and>
          (talk_status response = ascii ''error'' \<or> talk_status response = ascii ''rejected'') \<longrightarrow>
            generateLipSyncVideo key talks audio avatar =
              \<lparr>lipsync_result = Inl (VideoGenerationError
                 (ascii ''D-ID video generation failed: '' @ jobErrorMessage response)
                 DID_ERROR (Some (jobErrorMessage response)) False),
               status_requests = k + 1, slept_ms = replicate (k + 1) 10000\<rparr>) \<and>
         (k = 60 \<longrightarrow>
            generateLipSyncVideo key talks audio avatar =
              \<lparr>lipsync_result = Inl (VideoGenerationError
                 (ascii ''Video generation timed out after 600 seconds'') DID_ERROR None True),
               status_requests = 60, slept_ms = replicate 60 10000\<rparr>)"
proof -
  let ?P = "talk_polls (talks audio avatar)"
  have g: "generateLipSyncVideo key talks audio avatar = pollStatus_loop ?P 0"
    using assms(1,2) by (simp add: generateLipSyncVideo_def)
  have skip: "k \<le> 60 \<Longrightarrow> pollStatus_loop ?P 0 = pollStatus_loop ?P k"
    using assms(3) by (intro pollStatus_loop_skip) (auto simp: route_maxAttempts_def)
  have c1: "pollStatus_loop ?P k = \<lparr>lipsync_result = Inr url, status_requests = k + 1,
               slept_ms = replicate (k + 1) 10000\<rparr>"
    if "k < 60" "?P k = Some response" "talk_status response = ascii ''done''"
       "talk_result_url response = Some url" "url \<noteq> []"
    using pollStatus_loop_done [of k ?P response] that by simp
  have c2: "pollStatus_loop ?P k = \<lparr>lipsync_result = Inl (VideoGenerationError
                 (ascii ''D-ID API returned success but no video URL'') DID_ERROR None True),
               status_requests = k + 1, slept_ms = replicate (k + 1) 10000\<rparr>"
    if "k < 60" "?P k = Some response" "talk_status response = ascii ''done''"
       "falsyString (talk_result_url response)"
    using pollStatus_loop_done [of k ?P response] that
    by (cases "talk_result_url response") simp_all
  show ?thesis
    using g skip c1 c2 pollStatus_loop_failed [of k ?P response]
      pollStatus_loop_exhausted [of ?P]
    by auto
qed

theorem generateLipSyncVideo_polling_witness:
  "generateLipSyncVideo (Some (ascii ''key'')) talk_done_third [] (primary DID_AVATAR_CONFIG) =
     \<lparr>lipsync_result = Inr (ascii ''https://d-id.example/v.mp4''), status_requests = 3,
      slept_ms = [10000, 10000, 10000]\<rparr> \<and>
   generateLipSyncVideo (Some (ascii ''key'')) talk_rejected [] (primary DID_AVATAR_CONFIG) =
     \<lparr>lipsync_result = Inl (VideoGenerationError
        (ascii ''D-ID video generation failed: Video generation rejected'') DID_ERROR
        (Some (ascii ''Video generation rejected'')) False),
      status_requests = 1, slept_ms = [10000]\<rparr> \<and>
   generateLipSyncVideo (Some (ascii ''key'')) talk_never_done [] (primary DID_AVATAR_CONFIG) =
     \<lparr>lipsync_result = Inl (VideoGenerationError
        (ascii ''Video generation timed out after 600 seconds'') DID_ERROR None True),
      status_requests = 60, slept_ms = replicate 60 10000\<rparr>"
proof -
  let ?key = "Some (ascii ''key'')" and ?avatar = "primary DID_AVATAR_CONFIG"
  let ?done = "\<lparr>talk_status = ascii ''done'',
      talk_result_url = Some (ascii ''https://d-id.example/v.mp4''), talk_error = None\<rparr>"
  let ?rejected = "\<lparr>talk_status = ascii ''rejected'', talk_result_url = None,
      talk_error = None\<rparr>"
  have key: "\<not> falsyString ?key"
    by (simp add: ascii_def)
  have a: "talk_create (talk_done_third [] ?avatar) =
      Inr \<lparr>talk_id = ascii ''tlk_1'', create_status = ascii ''created''\<rparr>"
    by (simp add: talk_done_third_def accepted_def)
  have b: "\<forall>i<2. pending_poll (talk_polls (talk_done_third [] ?avatar) i)"
    by (auto simp: talk_done_third_def pending_poll_def status_of_def ascii_def)
  have c: "talk_polls (talk_done_third [] ?avatar) 2 = Some ?done"
    by (simp add: talk_done_third_def status_of_def)
  have "2 < (60::nat) \<and> talk_polls (talk_done_third [] ?avatar) 2 = Some ?done \<and>
      talk_status ?done = ascii ''done'' \<and>
      talk_result_url ?done = Some (ascii ''https://d-id.example/v.mp4'') \<and>
      ascii ''https://d-id.example/v.mp4'' \<noteq> []"
    using c by (simp add: ascii_def)
  then have "generateLipSyncVideo ?key talk_done_third [] ?avatar =
     \<lparr>lipsync_result = Inr (ascii ''https://d-id.example/v.mp4''), status_requests = 2 + 1,
      slept_ms = replicate (2 + 1) 10000\<rparr>"
    by (rule generateLipSyncVideo_polling [where talks = talk_done_third and audio = "[]"
        and avatar = ?avatar and k = 2 and url = "ascii ''https://d-id.example/v.mp4''"
        and response = ?done, OF key a b, THEN conjunct1, THEN mp])
  then have first: "generateLipSyncVideo ?key talk_done_third [] ?avatar =
     \<lparr>lipsync_result = Inr (ascii ''https://d-id.example/v.mp4''), status_requests = 3,
      slept_ms = [10000, 10000, 10000]\<rparr>"
    by (simp add: numeral_3_eq_3)
  have a': "talk_create (talk_never_done [] ?avatar) =
      Inr \<lparr>talk_id = ascii ''tlk_1'', create_status = ascii ''created''\<rparr>"
    by (simp add: talk_never_done_def accepted_def)
  have b': "\<forall>i<60. pending_poll (talk_polls (talk_never_done [] ?avatar) i)"
    by (simp add: talk_never_done_def pending_poll_def status_of_def ascii_def)
  have third: "generateLipSyncVideo ?key talk_never_done [] ?avatar =
     \<lparr>lipsync_result = Inl (VideoGenerationError
        (ascii ''Video generation timed out after 600 seconds'') DID_ERROR None True),
      status_requests = 60, slept_ms = replicate 60 10000\<rparr>"
    by (rule generateLipSyncVideo_polling [where talks = talk_never_done and audio = "[]"
        and avatar = ?avatar and k = 60, OF key a' b', THEN conjunct2, THEN conjunct2,
        THEN conjunct2, THEN mp]) (rule refl)
  have a'': "talk_create (talk_rejected [] ?avatar) =
      Inr \<lparr>talk_id = ascii ''tlk_1'', create_status = ascii ''created''\<rparr>"
    by (simp add: talk_rejected_def accepted_def)
  have b'': "\<forall>i<0. pending_poll (talk_polls (talk_rejected [] ?avatar) i)"
    by simp
  have c'': "talk_polls (talk_rejected [] ?avatar) 0 = Some ?rejected"
    by (simp add: talk_rejected_def status_of_def)
  have m: "jobErrorMessage ?rejected = ascii ''Video generation rejected''"
    by (simp add: jobErrorMessage_def ascii_def)
  have "0 < (60::nat) \<and> talk_polls (talk_rejected [] ?avatar) 0 = Some ?rejected \<and>
      (talk_status ?rejected = ascii ''error'' \<or> talk_status ?rejected = ascii ''rejected'')"
    using c'' by simp
  then have "generateLipSyncVideo ?key talk_rejected [] ?avatar =
     \<lparr>lipsync_result = Inl (VideoGenerationError
        (ascii ''D-ID video generation failed: '' @ jobErrorMessage ?rejected) DID_ERROR
        (Some (jobErrorMessage ?rejected)) False),
      status_requests = 0 + 1, slept_ms = replicate (0 + 1) 10000\<rparr>"
    by (rule generateLipSyncVideo_polling [where talks = talk_rejected and audio = "[]"
        and avatar = ?avatar and k = 0 and response = ?rejected, OF key a'' b'',
        THEN conjunct2, THEN conjunct2, THEN conjunct1, THEN mp])
  moreover have "ascii ''D-ID video generation failed: '' @ ascii ''Video generation rejected''
      = ascii ''D-ID video generation failed: Video generation rejected''"
    by (simp add: ascii_def)
  ultimately have second: "generateLipSyncVideo ?key talk_rejected [] ?avatar =
     \<lparr>lipsync_result = Inl (VideoGenerationError
        (ascii ''D-ID video generation failed: Video generation rejected'') DID_ERROR
        (Some (ascii ''Video generation rejected'')) False),
      status_requests = 1, slept_ms = [10000]\<rparr>"
    by (simp add: m)
  from first second third show ?thesis by simp
qed

text \<open>
  C3 as stated fails: the first status request reports \<open>done\<close>, and the call does not
  return a URL; it raises a retryable \<open>DID_ERROR\<close> that is not the timeout, after one
  request.
\<close>

theorem generateLipSyncVideo_done_without_url_counterexample:
  "talk_polls (talk_done_no_url [] (primary DID_AVATAR_CONFIG)) 0 =
     Some \<lparr>talk_status = ascii ''done'', talk_result_url = None, talk_error = None\<rparr> \<and>
   generateLipSyncVideo (Some (ascii ''key'')) talk_done_no_url [] (primary DID_AVATAR_CONFIG) =
     \<lparr>lipsync_result = Inl (VideoGenerationError
        (ascii ''D-ID API returned success but no video URL'') DID_ERROR None True),
      status_requests = 1, slept_ms = [10000]\<rparr>"
proof -
  let ?avatar = "primary DID_AVATAR_CONFIG"
  let ?done = "\<lparr>talk_status = ascii ''done'', talk_result_url = None, talk_error = None\<rparr>"
  have p: "talk_polls (talk_done_no_url [] ?avatar) 0 = Some ?done"
    by (simp add: talk_done_no_url_def status_of_def)
  have "generateLipSyncVideo (Some (ascii ''key'')) talk_done_no_url [] ?avatar =
      pollStatus_loop (talk_polls (talk_done_no_url [] ?avatar)) 0"
    by (simp add: generateLipSyncVideo_def talk_done_no_url_def accepted_def ascii_def)
  also have "\<dots> = \<lparr>lipsync_result = Inl (VideoGenerationError
        (ascii ''D-ID API returned success but no video URL'') DID_ERROR None True),
      status_requests = 1, slept_ms = [10000]\<rparr>"
    using pollStatus_loop_done [of 0 "talk_polls (talk_done_no_url [] ?avatar)" ?done] p
    by simp
  finally show ?thesis
    using p by simp
qed

section \<open>Properties of the route\<close>



lemma fallback_loop_first_success:
  assumes "\<forall>i. a \<le> i \<and> i < j \<longrightarrow>
             (\<exists>e. lipsync_result (generateLipSyncVideo key (remote (i + 1)) audio
                    (fallbacks config ! i)) = Inl e)"
    and "lipsync_result (generateLipSyncVideo key (remote (j + 1)) audio
           (fallbacks config ! j)) = Inr url"
    and "a \<le> j" and "j < length (fallbacks config)"
  shows "fallback_loop key remote config audio a cur v = (Inr url, fallbacks config ! j, j + 2)"
  using assms(1,3)
proof (induction "j - a" arbitrary: a cur)
  case 0
  then have "a = j" by simp
  then show ?case
    using assms(2,4) by (subst fallback_loop.simps) (simp add: Let_def)
next
  case (Suc d)
  then have lt: "a < j" by simp
  with Suc.prems obtain e where e: "lipsync_result (generateLipSyncVideo key (remote (a + 1))
      audio (fallbacks config ! a)) = Inl e"
    by auto
  have "fallback_loop key remote config audio a cur v =
        fallback_loop key remote config audio (a + 1) (fallbacks config ! a) v"
    using lt assms(4) e by (subst fallback_loop.simps) (simp add: Let_def)
  also have "\<dots> = (Inr url, fallbacks config ! j, j + 2)"
    using Suc.hyps(2) Suc.prems lt by (intro Suc.hyps(1)) auto
  finally show ?case .
qed




lemma generateWithFallback_second:
  assumes "lipsync_result (generateLipSyncVideo key (remote 0) audio cur) = Inl primaryError"
    and "retryableClassified primaryError"
    and "length (fallbacks config) = 2"
    and "lipsync_result (generateLipSyncVideo key (remote 1) audio (fallbacks config ! 0)) = Inl firstError"
    and "lipsync_result (generateLipSyncVideo key (remote 2) audio (fallbacks config ! 1)) = Inr url"
  shows "generateWithFallback key remote config audio cur = (Inr url, fallbacks config ! 1, 3)"
proof -
  have "fallback_loop key remote config audio 0 cur [] = (Inr url, fallbacks config ! 1, 1 + 2)"
  proof (rule fallback_loop_first_success)
    show "\<forall>i. 0 \<le> i \<and> i < 1 \<longrightarrow>
        (\<exists>e. lipsync_result (generateLipSyncVideo key (remote (i + 1)) audio
           (fallbacks config ! i)) = Inl e)"
      using assms(4) by auto
    show "lipsync_result (generateLipSyncVideo key (remote (1 + 1)) audio
        (fallbacks config ! 1)) = Inr url"
      using assms(5) by (simp add: numeral_2_eq_2)
  qed (use assms(3) in simp_all)
  then show ?thesis
    using assms(1,2,3) by (simp add: generateWithFallback_def)
qed

lemma processing_update_accepted:
  "update_accepted [(''status'', JSString (ascii ''processing''))]"
  by (simp add: update_accepted_def videos_columns_def videos_status_values_def ascii_def)

lemma completed_update_accepted:
  "update_accepted [(''status'', JSString (ascii ''completed'')), (''video_url'', JSString url),
     (''duration'', JSNumber d)]"
  by (simp add: update_accepted_def videos_columns_def videos_status_values_def ascii_def)



lemma processing_update:
  assumes "videos videoId = Some r"
  shows "supabase_update videos [(''status'', JSString (ascii ''processing''))] videoId =
           videos(videoId \<mapsto> r(''status'' \<mapsto> JSString (ascii ''processing'')))"
  using assms by (simp add: supabase_update_def processing_update_accepted)

lemma generateVideoAsync_completed:
  assumes "generateAudio_route (OPENAI_API_KEY env) (speech env) scriptContent = Inr audioBuffer"
    and "videos videoId = Some r"
    and "generateWithFallback (DID_API_KEY env) (did_remote env) config (encode audioBuffer)
           (orElse avatarUrl (primary config)) = (Inr url, avatar, n)"
  shows "generateVideoAsync env encode config videos videoId scriptContent avatarUrl =
           \<lparr>videos_after = videos(videoId \<mapsto>
              r(''status'' \<mapsto> JSString (ascii ''completed''),
                ''video_url'' \<mapsto> JSString url,
                ''duration'' \<mapsto> JSNumber (int (length scriptContent) div 5))),
            avatar_at_end = avatar, lipsync_calls = n\<rparr>"
proof -
  let ?done = "[(''status'', JSString (ascii ''completed'')), (''video_url'', JSString url),
      (''duration'', JSNumber (int (length scriptContent) div 5))]"
  have "r(''status'' \<mapsto> JSString (ascii ''processing'')) ++ map_of ?done =
        r(''status'' \<mapsto> JSString (ascii ''completed''), ''video_url'' \<mapsto> JSString url,
          ''duration'' \<mapsto> JSNumber (int (length scriptContent) div 5))"
    by (rule ext) simp
  then have "supabase_update
        (supabase_update videos [(''status'', JSString (ascii ''processing''))] videoId)
        ?done videoId =
      videos(videoId \<mapsto>
        r(''status'' \<mapsto> JSString (ascii ''completed''), ''video_url'' \<mapsto> JSString url,
          ''duration'' \<mapsto> JSNumber (int (length scriptContent) div 5)))"
    using processing_update [of videos videoId r] assms(2)
    by (simp add: supabase_update_def completed_update_accepted)
  then show ?thesis
    using assms(1,3) by (simp add: generateVideoAsync_def Let_def)
qed


text \<open>
  C1, as amended: when the audio is generated, the primary avatar fails with a retryable
  error, the fallback list has two images, the first fallback fails (in any way) and the
  second succeeds, the run ends with the persisted status \<open>completed\<close>, the persisted
  \<open>video_url\<close> is the URL produced with the second fallback, and \<open>currentAvatar\<close>, which
  is logged, is the second fallback URL. The update writes \<open>status\<close>, \<open>video_url\<close> and
  \<open>duration\<close> and no other column: the avatar is not persisted.
\<close>

theorem generateVideoAsync_second_fallback:
  assumes "generateAudio_route (OPENAI_API_KEY env) (speech env) scriptContent = Inr audioBuffer"
    and "videos videoId = Some r"
    and "length (fallbacks config) = 2"
    and "lipsync_result (generateLipSyncVideo (DID_API_KEY env) (did_remote env 0)
           (encode audioBuffer) (orElse avatarUrl (primary config))) = Inl primaryError"
    and "retryableClassified primaryError"
    and "lipsync_result (generateLipSyncVideo (DID_API_KEY env) (did_remote env 1)
           (encode audioBuffer) (fallbacks config ! 0)) = Inl firstError"
    and "lipsync_result (generateLipSyncVideo (DID_API_KEY env) (did_remote env 2)
           (encode audioBuffer) (fallbacks config ! 1)) = Inr url"
  shows "generateVideoAsync env encode config videos videoId scriptContent avatarUrl =
           \<lparr>videos_after = videos(videoId \<mapsto>
              r(''status'' \<mapsto> JSString (ascii ''completed''),
                ''video_url'' \<mapsto> JSString url,
                ''duration'' \<mapsto> JSNumber (int (length scriptContent) div 5))),
            avatar_at_end = fallbacks config ! 1, lipsync_calls = 3\<rparr>"
  using assms(1,2)
proof (rule generateVideoAsync_completed)
  show "generateWithFallback (DID_API_KEY env) (did_remote env) config (encode audioBuffer)
          (orElse avatarUrl (primary config)) = (Inr url, fallbacks config ! 1, 3)"
    using assms(4,5,3,6,7) by (rule generateWithFallback_second)
qed


lemma lipsync_done_no_url:
  "generateLipSyncVideo (Some (ascii ''key'')) talk_done_no_url audio avatar =
     \<lparr>lipsync_result = Inl (VideoGenerationError
        (ascii ''D-ID API returned success but no video URL'') DID_ERROR None True),
      status_requests = 1, slept_ms = [10000]\<rparr>"
proof -
  let ?done = "\<lparr>talk_status = ascii ''done'', talk_result_url = None, talk_error = None\<rparr>"
  have p: "talk_polls (talk_done_no_url audio avatar) 0 = Some ?done"
    by (simp add: talk_done_no_url_def status_of_def)
  have "generateLipSyncVideo (Some (ascii ''key'')) talk_done_no_url audio avatar =
      pollStatus_loop (talk_polls (talk_done_no_url audio avatar)) 0"
    by (simp add: generateLipSyncVideo_def talk_done_no_url_def accepted_def ascii_def)
  also have "\<dots> = \<lparr>lipsync_result = Inl (VideoGenerationError
        (ascii ''D-ID API returned success but no video URL'') DID_ERROR None True),
      status_requests = 1, slept_ms = [10000]\<rparr>"
    using pollStatus_loop_done [of 0 "talk_polls (talk_done_no_url audio avatar)" ?done] p
    by simp
  finally show ?thesis .
qed

lemma rejected_message:
  "ascii ''D-ID video generation failed: '' @
     jobErrorMessage \<lparr>talk_status = ascii ''rejected'', talk_result_url = None, talk_error = None\<rparr>
   = ascii ''D-ID video generation failed: Video generation rejected''"
  by (simp add: jobErrorMessage_def ascii_def)

lemma lipsync_rejected:
  "lipsync_result (generateLipSyncVideo (Some (ascii ''key'')) talk_rejected audio avatar) =
     Inl (VideoGenerationError
        (ascii ''D-ID video generation failed: Video generation rejected'') DID_ERROR
        (Some (ascii ''Video generation rejected'')) False)"
proof -
  let ?rejected = "\<lparr>talk_status = ascii ''rejected'', talk_result_url = None,
      talk_error = None\<rparr>"
  have p: "talk_polls (talk_rejected audio avatar) 0 = Some ?rejected"
    by (simp add: talk_rejected_def status_of_def)
  have m: "jobErrorMessage ?rejected = ascii ''Video generation rejected''"
    by (simp add: jobErrorMessage_def ascii_def)
  have "generateLipSyncVideo (Some (ascii ''key'')) talk_rejected audio avatar =
      pollStatus_loop (talk_polls (talk_rejected audio avatar)) 0"
    by (simp add: generateLipSyncVideo_def talk_rejected_def accepted_def ascii_def)
  then show ?thesis
    using pollStatus_loop_failed [of 0 "talk_polls (talk_rejected audio avatar)" ?rejected] p
      rejected_message
    by (simp add: m)
qed

lemma lipsync_done_third:
  "lipsync_result (generateLipSyncVideo (Some (ascii ''key'')) talk_done_third audio avatar) =
     Inr (ascii ''https://d-id.example/v.mp4'')"
proof -
  let ?P = "talk_polls (talk_done_third audio avatar)"
  let ?done = "\<lparr>talk_status = ascii ''done'',
      talk_result_url = Some (ascii ''https://d-id.example/v.mp4''), talk_error = None\<rparr>"
  have "generateLipSyncVideo (Some (ascii ''key'')) talk_done_third audio avatar =
      pollStatus_loop ?P 0"
    by (simp add: generateLipSyncVideo_def talk_done_third_def accepted_def ascii_def)
  also have "\<dots> = pollStatus_loop ?P 2"
    by (rule pollStatus_loop_skip)
      (auto simp: talk_done_third_def pending_poll_def status_of_def ascii_def
        route_maxAttempts_def)
  finally have "generateLipSyncVideo (Some (ascii ''key'')) talk_done_third audio avatar =
      pollStatus_loop ?P 2" .
  moreover have "?P 2 = Some ?done"
    by (simp add: talk_done_third_def status_of_def)
  moreover have "ascii ''https://d-id.example/v.mp4'' \<noteq> []"
    by (simp add: ascii_def)
  ultimately show ?thesis
    using pollStatus_loop_done [of 2 ?P ?done] by simp
qed

lemma example_audio:
  "generateAudio_route (Some (ascii ''sk'')) (\<lambda>text. Inr [73, 68, 51]) script = Inr [73, 68, 51]"
  by (simp add: generateAudio_route_def ascii_def)

lemma inserted_row:
  "inserted_videos (ascii ''v1'') =
     Some [''script_id'' \<mapsto> JSString (ascii ''s1''),
           ''title'' \<mapsto> JSString (ascii ''Untitled Video''),
           ''status'' \<mapsto> JSString (ascii ''pending'')]"
  by (simp add: inserted_videos_def)

lemma anna_is_second_fallback:
  "fallbacks DID_AVATAR_CONFIG ! 1 =
     ascii ''https://d-id-public-bucket.s3.us-west-2.amazonaws.com/anna.jpg''"
  by (simp add: DID_AVATAR_CONFIG_def)

lemma second_fallback_run_eq:
  "second_fallback_run =
     \<lparr>videos_after = inserted_videos(ascii ''v1'' \<mapsto>
        [''script_id'' \<mapsto> JSString (ascii ''s1''),
         ''title'' \<mapsto> JSString (ascii ''Untitled Video''),
         ''status'' \<mapsto> JSString (ascii ''completed''),
         ''video_url'' \<mapsto> JSString (ascii ''https://d-id.example/v.mp4''),
         ''duration'' \<mapsto> JSNumber 2]),
      avatar_at_end = ascii ''https://d-id-public-bucket.s3.us-west-2.amazonaws.com/anna.jpg'',
      lipsync_calls = 3\<rparr>"
proof -
  let ?r = "[''script_id'' \<mapsto> JSString (ascii ''s1''),
           ''title'' \<mapsto> JSString (ascii ''Untitled Video''),
           ''status'' \<mapsto> JSString (ascii ''pending'')]"
  have g: "generateWithFallback (DID_API_KEY second_fallback_env)
      (did_remote second_fallback_env) DID_AVATAR_CONFIG (base64_of_example [73, 68, 51])
      (orElse None (primary DID_AVATAR_CONFIG)) =
      (Inr (ascii ''https://d-id.example/v.mp4''), fallbacks DID_AVATAR_CONFIG ! 1, 3)"
    by (rule generateWithFallback_second [where primaryError = "VideoGenerationError
        (ascii ''D-ID API returned success but no video URL'') DID_ERROR None True"])
      (simp_all add: second_fallback_env_def lipsync_done_no_url lipsync_rejected
        lipsync_done_third DID_AVATAR_CONFIG_def)
  have a: "generateAudio_route (OPENAI_API_KEY second_fallback_env)
      (speech second_fallback_env) (ascii ''Hello, world!'') = Inr [73, 68, 51]"
    by (simp add: second_fallback_env_def example_audio)
  have d: "int (length (ascii ''Hello, world!'')) div 5 = 2"
    by (simp add: ascii_def)
  have "?r(''status'' \<mapsto> JSString (ascii ''completed''),
           ''video_url'' \<mapsto> JSString (ascii ''https://d-id.example/v.mp4''),
           ''duration'' \<mapsto> JSNumber 2) =
        [''script_id'' \<mapsto> JSString (ascii ''s1''),
         ''title'' \<mapsto> JSString (ascii ''Untitled Video''),
         ''status'' \<mapsto> JSString (ascii ''completed''),
         ''video_url'' \<mapsto> JSString (ascii ''https://d-id.example/v.mp4''),
         ''duration'' \<mapsto> JSNumber 2]"
    by (rule ext) simp
  then show ?thesis
    using generateVideoAsync_completed [where videos = inserted_videos
        and videoId = "ascii ''v1''" and encode = base64_of_example
        and audioBuffer = "[73, 68, 51]", OF a inserted_row g]
    by (simp add: second_fallback_run_def d anna_is_second_fallback del: One_nat_def)
qed




theorem generateVideoAsync_second_fallback_witness:
  "generateVideoAsync second_fallback_env base64_of_example DID_AVATAR_CONFIG inserted_videos
     (ascii ''v1'') (ascii ''Hello, world!'') None =
     \<lparr>videos_after = inserted_videos(ascii ''v1'' \<mapsto>
        [''script_id'' \<mapsto> JSString (ascii ''s1''),
         ''title'' \<mapsto> JSString (ascii ''Untitled Video''),
         ''status'' \<mapsto> JSString (ascii ''pending'')]
        (''status'' \<mapsto> JSString (ascii ''completed''),
         ''video_url'' \<mapsto> JSString (ascii ''https://d-id.example/v.mp4''),
         ''duration'' \<mapsto> JSNumber (int (length (ascii ''Hello, world!'')) div 5))),
      avatar_at_end = fallbacks DID_AVATAR_CONFIG ! 1, lipsync_calls = 3\<rparr>"
proof (rule generateVideoAsync_second_fallback [where audioBuffer = "[73, 68, 51]"
      and primaryError = "VideoGenerationError
        (ascii ''D-ID API returned success but no video URL'') DID_ERROR None True"
      and firstError = "VideoGenerationError
        (ascii ''D-ID video generation failed: Video generation rejected'') DID_ERROR
        (Some (ascii ''Video generation rejected'')) False"])
  show "generateAudio_route (OPENAI_API_KEY second_fallback_env) (speech second_fallback_env)
      (ascii ''Hello, world!'') = Inr [73, 68, 51]"
    by (simp add: second_fallback_env_def example_audio)
  show "inserted_videos (ascii ''v1'') =
      Some [''script_id'' \<mapsto> JSString (ascii ''s1''),
            ''title'' \<mapsto> JSString (ascii ''Untitled Video''),
            ''status'' \<mapsto> JSString (ascii ''pending'')]"
    by (rule inserted_row)
  show "length (fallbacks DID_AVATAR_CONFIG) = 2"
    by (simp add: DID_AVATAR_CONFIG_def)
  show "lipsync_result (generateLipSyncVideo (DID_API_KEY second_fallback_env)
      (did_remote second_fallback_env 0) (base64_of_example [73, 68, 51])
      (orElse None (primary DID_AVATAR_CONFIG))) =
      Inl (VideoGenerationError (ascii ''D-ID API returned success but no video URL'')
        DID_ERROR None True)"
    by (simp add: second_fallback_env_def lipsync_done_no_url)
  show "retryableClassified (VideoGenerationError
      (ascii ''D-ID API returned success but no video URL'') DID_ERROR None True)"
    by simp
  show "lipsync_result (generateLipSyncVideo (DID_API_KEY second_fallback_env)
      (did_remote second_fallback_env 1) (base64_of_example [73, 68, 51])
      (fallbacks DID_AVATAR_CONFIG ! 0)) =
      Inl (VideoGenerationError
        (ascii ''D-ID video generation failed: Video generation rejected'') DID_ERROR
        (Some (ascii ''Video generation rejected'')) False)"
    by (simp add: second_fallback_env_def lipsync_rejected)
  show "lipsync_result (generateLipSyncVideo (DID_API_KEY second_fallback_env)
      (did_remote second_fallback_env 2) (base64_of_example [73, 68, 51])
      (fallbacks DID_AVATAR_CONFIG ! 1)) = Inr (ascii ''https://d-id.example/v.mp4'')"
    by (simp add: second_fallback_env_def lipsync_done_third)
qed

text \<open>
  C1 as stated fails: in this run the primary avatar fails with a retryable error and the
  second of the two fallbacks succeeds; the row ends with the status \<open>completed\<close> and has
  no field that holds the avatar, under any of the names \<open>avatarUsed\<close>, \<open>avatar_used\<close>
  and \<open>avatar_id\<close>.
\<close>

theorem generateVideoAsync_avatar_not_persisted_counterexample:
  "lipsync_result (generateLipSyncVideo (DID_API_KEY second_fallback_env)
      (did_remote second_fallback_env 0) (base64_of_example [73, 68, 51])
      (primary DID_AVATAR_CONFIG)) =
     Inl (VideoGenerationError (ascii ''D-ID API returned success but no video URL'')
        DID_ERROR None True) \<and>
   lipsync_result (generateLipSyncVideo (DID_API_KEY second_fallback_env)
      (did_remote second_fallback_env 2) (base64_of_example [73, 68, 51])
      (fallbacks DID_AVATAR_CONFIG ! 1)) = Inr (ascii ''https://d-id.example/v.mp4'') \<and>
   videos_after second_fallback_run (ascii ''v1'') =
     Some [''script_id'' \<mapsto> JSString (ascii ''s1''),
           ''title'' \<mapsto> JSString (ascii ''Untitled Video''),
           ''status'' \<mapsto> JSString (ascii ''completed''),
           ''video_url'' \<mapsto> JSString (ascii ''https://d-id.example/v.mp4''),
           ''duration'' \<mapsto> JSNumber 2] \<and>
   the (videos_after second_fallback_run (ascii ''v1'')) ''avatarUsed'' = None \<and>
   the (videos_after second_fallback_run (ascii ''v1'')) ''avatar_used'' = None \<and>
   the (videos_after second_fallback_run (ascii ''v1'')) ''avatar_id'' = None"
  by (simp add: second_fallback_run_eq second_fallback_env_def lipsync_done_no_url
      lipsync_done_third)



end
